theory Spec2Isabelle
  imports Complex_Main
begin

section \<open>Data model\<close>

text \<open>
  The timing techniques of \<^verbatim>\<open>backend/advanced_timing.py\<close> (class
  \<^verbatim>\<open>AdvancedTimingTechniques\<close>) and the parts of
  \<^verbatim>\<open>backend/astrological_calculator.py\<close> they call.

  Conventions of the embedding:
  \<^item> Python \<^verbatim>\<open>float\<close> values (longitudes, years) are real numbers; rounding of
    IEEE doubles is not modelled.
  \<^item> A \<^verbatim>\<open>datetime\<close> is a number of days from a fixed midnight; a
    \<^verbatim>\<open>timedelta(days=x)\<close> is the number \<open>x\<close>, and \<^verbatim>\<open>.days\<close> of a difference is its
    floor. A date string \<^verbatim>\<open>"%Y-%m-%d"\<close> is the integer day number of that date, and
    parses to the midnight that starts it.
  \<^item> The planet and sign names, which the source writes as string literals, are the
    constructors of two enumerations.
  \<^item> What the source reads from the Swiss Ephemeris or from the wall clock is an explicit
    argument; one call reads one clock value, and the range of \<^verbatim>\<open>datetime\<close> (years 1 to
    9999) is not modelled.
  \<^item> Line numbers refer to \<^verbatim>\<open>advanced_timing.py\<close> unless the calculator is named.
  \<^item> Every exception the modelled code can raise is a value of type \<open>error\<close>.
\<close>

datatype body =
  Sun | Moon | Mercury | Venus | Mars | Jupiter | Saturn
  | Uranus | Neptune | Pluto | Chiron
  | Ketu | Rahu | North_node | South_node

datatype sign =
  Aries | Taurus | Gemini | Cancer | Leo | Virgo
  | Libra | Scorpio | Sagittarius | Capricorn | Aquarius | Pisces

datatype error =
  TypeError | IndexError | KeyError | ValueError | ZeroDivisionError | StopIteration

type_synonym instant = real

text \<open>The natal chart held by the calculator: \<^verbatim>\<open>birth_datetime\<close>, the longitudes of
  \<^verbatim>\<open>calculate_planets()\<close> and the angles and cusps of \<^verbatim>\<open>calculate_houses()\<close>.
  \<^verbatim>\<open>calculate_planets()\<close> has an entry for each of the twelve names the code looks up
  (\<^verbatim>\<open>sun\<close> to \<^verbatim>\<open>pluto\<close>, \<^verbatim>\<open>north_node\<close>, \<^verbatim>\<open>chiron\<close>), so the lookup is a total function.\<close>

record natal =
  birth_datetime :: instant
  longitude :: "body \<Rightarrow> real"
  asc :: real
  mc :: real
  cusps :: "real list"

text \<open>\<^verbatim>\<open>datetime.now()\<close>: the instant and its calendar month.\<close>

record clock =
  now :: instant
  now_month :: int

subsection \<open>Python primitives\<close>

text \<open>\<^verbatim>\<open>int(x)\<close> on a float truncates towards zero.\<close>

definition py_int :: "real \<Rightarrow> int" where
  "py_int x = (if 0 \<le> x then \<lfloor>x\<rfloor> else \<lceil>x\<rceil>)"

text \<open>\<^verbatim>\<open>x % m\<close> on floats with \<open>m > 0\<close>: the result lies in \<open>[0, m)\<close>.\<close>

definition py_fmod :: "real \<Rightarrow> real \<Rightarrow> real" where
  "py_fmod x m = x - m * of_int \<lfloor>x / m\<rfloor>"

text \<open>\<^verbatim>\<open>xs[i]\<close>: a negative index counts from the end, anything else out of range raises.\<close>

definition py_nth :: "'a list \<Rightarrow> int \<Rightarrow> error + 'a" where
  "py_nth xs i =
     (if 0 \<le> i \<and> i < int (length xs) then Inr (xs ! nat i)
      else if i < 0 \<and> - int (length xs) \<le> i then Inr (xs ! nat (int (length xs) + i))
      else Inl IndexError)"

text \<open>\<^verbatim>\<open>xs.index(x)\<close>: the first position of \<open>x\<close>, \<^verbatim>\<open>ValueError\<close> when absent.\<close>

fun list_index :: "'a list \<Rightarrow> 'a \<Rightarrow> error + nat" where
  "list_index [] x = Inl ValueError"
| "list_index (y # ys) x =
     (if y = x then Inr 0
      else case list_index ys x of Inl e \<Rightarrow> Inl e | Inr i \<Rightarrow> Inr (Suc i))"

section \<open>Period registry\<close>

text \<open>\<^verbatim>\<open>sign_periods\<close> of \<^verbatim>\<open>calculate_zodiacal_releasing\<close>.\<close>

fun sign_periods :: "sign \<Rightarrow> int" where
  "sign_periods Aries = 15"
| "sign_periods Taurus = 8"
| "sign_periods Gemini = 20"
| "sign_periods Cancer = 25"
| "sign_periods Leo = 19"
| "sign_periods Virgo = 20"
| "sign_periods Libra = 8"
| "sign_periods Scorpio = 15"
| "sign_periods Sagittarius = 12"
| "sign_periods Capricorn = 27"
| "sign_periods Aquarius = 30"
| "sign_periods Pisces = 12"

text \<open>The list \<^verbatim>\<open>signs\<close> that \<^verbatim>\<open>get_zodiac_sign\<close>, \<^verbatim>\<open>_get_next_sign\<close>,
  \<^verbatim>\<open>_get_next_zr_sign\<close> and \<^verbatim>\<open>_get_angular_signs_from_fortune\<close> each declare.\<close>

definition signs :: "sign list" where
  "signs = [Aries, Taurus, Gemini, Cancer, Leo, Virgo,
            Libra, Scorpio, Sagittarius, Capricorn, Aquarius, Pisces]"

text \<open>\<^verbatim>\<open>dasha_sequence\<close> of \<^verbatim>\<open>calculate_vimshottari_dasha\<close>.\<close>

definition dasha_sequence :: "(body \<times> int) list" where
  "dasha_sequence =
     [(Ketu, 7), (Venus, 20), (Sun, 6), (Moon, 10),
      (Mars, 7), (Rahu, 18), (Jupiter, 16), (Saturn, 19),
      (Mercury, 17)]"

text \<open>\<^verbatim>\<open>dasha_years\<close> and \<^verbatim>\<open>sequence\<close> of \<^verbatim>\<open>_calculate_antardasha\<close>.\<close>

definition dasha_years :: "body \<rightharpoonup> int" where
  "dasha_years = map_of
     [(Ketu, 7), (Venus, 20), (Sun, 6), (Moon, 10),
      (Mars, 7), (Rahu, 18), (Jupiter, 16), (Saturn, 19), (Mercury, 17)]"

definition antardasha_base :: "body list" where
  "antardasha_base = [Ketu, Venus, Sun, Moon, Mars, Rahu, Jupiter, Saturn, Mercury]"

text \<open>The two \<^verbatim>\<open>sequence\<close> literals of \<^verbatim>\<open>calculate_firdaria\<close>.\<close>

definition firdaria_sequence :: "bool \<Rightarrow> (body \<times> int) list" where
  "firdaria_sequence is_day_birth =
     (if is_day_birth then
        [(Sun, 10), (Venus, 8), (Mercury, 13), (Moon, 9),
         (Saturn, 11), (Jupiter, 12), (Mars, 7),
         (North_node, 3), (South_node, 2)]
      else
        [(Moon, 9), (Saturn, 11), (Jupiter, 12), (Mars, 7),
         (Sun, 10), (Venus, 8), (Mercury, 13),
         (North_node, 3), (South_node, 2)])"

section \<open>Day and night births, lots and signs\<close>

text \<open>The test \<^verbatim>\<open>is_day_birth\<close> as \<^verbatim>\<open>calculate_firdaria\<close> writes it (lines 321-322).\<close>

definition firdaria_is_day_birth :: "natal \<Rightarrow> bool" where
  "firdaria_is_day_birth n =
     (longitude n Sun > asc n \<or> longitude n Sun < asc n - 180)"

text \<open>The same test as \<^verbatim>\<open>_calculate_lot_of_spirit\<close> writes it (lines 93-94), on its
  locals \<^verbatim>\<open>planets\<close> and \<^verbatim>\<open>houses\<close>.\<close>

definition spirit_is_day_birth :: "natal \<Rightarrow> bool" where
  "spirit_is_day_birth n =
     (let planets = longitude n; houses_asc = asc n
      in planets Sun > houses_asc \<or> planets Sun < houses_asc - 180)"

definition calculate_lot_of_spirit :: "natal \<Rightarrow> real" where
  "calculate_lot_of_spirit n =
     (let spirit = (if spirit_is_day_birth n
                    then asc n + longitude n Sun - longitude n Moon
                    else asc n + longitude n Moon - longitude n Sun)
      in if spirit < 0 then spirit + 360
         else if spirit > 360 then spirit - 360
         else spirit)"

text \<open>\<^verbatim>\<open>get_zodiac_sign\<close>: \<^verbatim>\<open>signs[int(longitude / 30)]\<close>.\<close>

definition get_zodiac_sign :: "real \<Rightarrow> error + sign" where
  "get_zodiac_sign lon = py_nth signs (py_int (lon / 30))"

text \<open>\<^verbatim>\<open>calculate_arabic_parts\<close> of the calculator: the Part of Fortune, its sign and
  its degree in the sign.\<close>

record arabic_parts =
  part_of_fortune :: real
  pof_sign :: sign
  pof_degree :: real

definition calculate_arabic_parts :: "natal \<Rightarrow> error + arabic_parts" where
  "calculate_arabic_parts n =
     (let is_day_birth = (longitude n Sun > asc n \<or> longitude n Sun < asc n - 180);
          pof0 = (if is_day_birth
                  then asc n + longitude n Moon - longitude n Sun
                  else asc n + longitude n Sun - longitude n Moon);
          pof = (if pof0 < 0 then pof0 + 360
                 else if pof0 > 360 then pof0 - 360
                 else pof0)
      in case get_zodiac_sign pof of
           Inl e \<Rightarrow> Inl e
         | Inr s \<Rightarrow> Inr \<lparr>part_of_fortune = pof, pof_sign = s, pof_degree = py_fmod pof 30\<rparr>)"

section \<open>Zodiacal Releasing\<close>

text \<open>\<^verbatim>\<open>signs.index(current_sign)\<close> on the twelve-sign list.\<close>

fun sign_index :: "sign \<Rightarrow> nat" where
  "sign_index Aries = 0"
| "sign_index Taurus = 1"
| "sign_index Gemini = 2"
| "sign_index Cancer = 3"
| "sign_index Leo = 4"
| "sign_index Virgo = 5"
| "sign_index Libra = 6"
| "sign_index Scorpio = 7"
| "sign_index Sagittarius = 8"
| "sign_index Capricorn = 9"
| "sign_index Aquarius = 10"
| "sign_index Pisces = 11"

definition get_next_sign :: "sign \<Rightarrow> sign" where
  "get_next_sign current_sign =
     (let current_index = sign_index current_sign
      in signs ! ((current_index + 1) mod 12))"

definition get_next_zr_sign :: "sign \<Rightarrow> sign" where
  "get_next_zr_sign current_sign =
     (let current_index = sign_index current_sign
      in signs ! ((current_index + 11) mod 12))"

fun get_sign_ruler :: "sign \<Rightarrow> body" where
  "get_sign_ruler Aries = Mars"
| "get_sign_ruler Taurus = Venus"
| "get_sign_ruler Gemini = Mercury"
| "get_sign_ruler Cancer = Moon"
| "get_sign_ruler Leo = Sun"
| "get_sign_ruler Virgo = Mercury"
| "get_sign_ruler Libra = Venus"
| "get_sign_ruler Scorpio = Mars"
| "get_sign_ruler Sagittarius = Jupiter"
| "get_sign_ruler Capricorn = Saturn"
| "get_sign_ruler Aquarius = Saturn"
| "get_sign_ruler Pisces = Jupiter"

text \<open>\<^verbatim>\<open>_get_angular_signs_from_fortune\<close>, given the sign of the Part of Fortune.\<close>

definition get_angular_signs_from_fortune :: "sign \<Rightarrow> sign list" where
  "get_angular_signs_from_fortune fortune_sign =
     (let fortune_index = sign_index fortune_sign;
          angular_indices = [fortune_index, (fortune_index + 3) mod 12,
                             (fortune_index + 6) mod 12, (fortune_index + 9) mod 12]
      in map (\<lambda>i. signs ! i) angular_indices)"

definition is_peak_period :: "sign \<Rightarrow> sign \<Rightarrow> bool" where
  "is_peak_period fortune_sign s = (s \<in> set (get_angular_signs_from_fortune fortune_sign))"

definition check_loosening_bond :: "sign \<Rightarrow> int \<Rightarrow> bool" where
  "check_loosening_bond s level =
     (let ruler = get_sign_ruler s in ruler \<in> set [Mars, Saturn] \<and> level \<ge> 2)"

record zr_period =
  zr_level :: int
  zr_sign :: sign
  zr_ruler :: body
  start_days :: int
  end_days :: int
  peak :: bool
  loosening :: bool

text \<open>Lines 57-65: the span in days of the sign's period at a level.\<close>

definition zr_period_days :: "int \<Rightarrow> sign \<Rightarrow> int" where
  "zr_period_days level current_sign =
     (let period_years = sign_periods current_sign
      in if level = 2 then period_years * 30
         else if level = 3 then period_years * 7
         else if level = 4 then period_years
         else period_years * 360)"

text \<open>Lines 67-75: the entry appended for the current sign.\<close>

definition zr_entry :: "sign \<Rightarrow> int \<Rightarrow> sign \<Rightarrow> int \<Rightarrow> zr_period" where
  "zr_entry fortune_sign level current_sign current_days =
     \<lparr>zr_level = level, zr_sign = current_sign, zr_ruler = get_sign_ruler current_sign,
      start_days = current_days,
      end_days = current_days + zr_period_days level current_sign,
      peak = is_peak_period fortune_sign current_sign,
      loosening = check_loosening_bond current_sign level\<rparr>"

text \<open>The \<^verbatim>\<open>while\<close> loop of lines 56-84, returning the entries it appends to
  \<^verbatim>\<open>periods\<close> from the state \<open>(current_days, current_sign, level)\<close> on.\<close>

function zr_walk :: "sign \<Rightarrow> int \<Rightarrow> int \<Rightarrow> sign \<Rightarrow> int \<Rightarrow> zr_period list" where
  "zr_walk fortune_sign days_elapsed current_days current_sign level =
     (if current_days < days_elapsed \<and> level \<le> 4 then
        zr_entry fortune_sign level current_sign current_days #
        (if current_days + zr_period_days level current_sign > days_elapsed then
           zr_walk fortune_sign days_elapsed current_days
             (if level + 1 \<le> 4 then get_next_zr_sign current_sign else current_sign)
             (level + 1)
         else
           zr_walk fortune_sign days_elapsed
             (current_days + zr_period_days level current_sign)
             (get_next_sign current_sign) level)
      else [])"
  by pat_completeness auto
termination
proof (relation "measures [\<lambda>(f, d, c, s, l). nat (5 - l), \<lambda>(f, d, c, s, l). nat (d - c)]")
  show "wf (measures [\<lambda>(f, d, c, s, l). nat (5 - l), \<lambda>(f :: sign, d, c, s :: sign, l :: int). nat (d - c)])"
    by simp
next
  fix fortune_sign :: sign and days_elapsed current_days :: int and current_sign :: sign
    and level :: int
  assume "current_days < days_elapsed \<and> level \<le> 4"
  then show "((fortune_sign, days_elapsed, current_days,
         if level + 1 \<le> 4 then get_next_zr_sign current_sign else current_sign, level + 1),
        fortune_sign, days_elapsed, current_days, current_sign, level)
       \<in> measures [\<lambda>(f, d, c, s, l). nat (5 - l), \<lambda>(f, d, c, s, l). nat (d - c)]"
    by simp
next
  fix fortune_sign :: sign and days_elapsed current_days :: int and current_sign :: sign
    and level :: int
  assume a: "current_days < days_elapsed \<and> level \<le> 4"
  have "0 < sign_periods current_sign"
    by (cases current_sign) simp_all
  then have "0 < zr_period_days level current_sign"
    by (simp add: zr_period_days_def Let_def)
  with a show "((fortune_sign, days_elapsed, current_days + zr_period_days level current_sign,
         get_next_sign current_sign, level),
        fortune_sign, days_elapsed, current_days, current_sign, level)
       \<in> measures [\<lambda>(f, d, c, s, l). nat (5 - l), \<lambda>(f, d, c, s, l). nat (d - c)]"
    by simp
qed

declare zr_walk.simps [simp del]

text \<open>\<^verbatim>\<open>calculate_zodiacal_releasing\<close>. \<^verbatim>\<open>calculate_arabic_parts\<close> runs first in every
  case; the sign of the Part of Fortune it returns is the one \<^verbatim>\<open>_is_peak_period\<close>
  recomputes for each entry.\<close>

definition calculate_zodiacal_releasing ::
    "clock \<Rightarrow> natal \<Rightarrow> string \<Rightarrow> int option \<Rightarrow> error + zr_period list" where
  "calculate_zodiacal_releasing c n starting_lot target_date =
     (case calculate_arabic_parts n of
        Inl e \<Rightarrow> Inl e
      | Inr lots \<Rightarrow>
          let starting_point = (if starting_lot = ''fortune'' then part_of_fortune lots
                                else calculate_lot_of_spirit n)
          in (case get_zodiac_sign starting_point of
                Inl e \<Rightarrow> Inl e
              | Inr s \<Rightarrow>
                  (let target = (case target_date of None \<Rightarrow> now c | Some d \<Rightarrow> of_int d);
                       days_elapsed = \<lfloor>target - birth_datetime n\<rfloor>
                   in Inr (zr_walk (pof_sign lots) days_elapsed 0 s 1))))"

section \<open>Firdaria\<close>

record subperiod =
  sub_ruler :: body
  sub_years :: real
  sub_position :: int

definition firdaria_planets :: "body list" where
  "firdaria_planets = [Sun, Venus, Mercury, Moon, Saturn, Jupiter, Mars]"

text \<open>Lines 367-372: the local list \<^verbatim>\<open>planets\<close> after \<^verbatim>\<open>remove\<close> and
  \<^verbatim>\<open>insert(0, ...)\<close>.\<close>

definition subperiod_planets :: "body \<Rightarrow> body list" where
  "subperiod_planets major_planet =
     (if major_planet \<in> set firdaria_planets
      then major_planet # remove1 major_planet firdaria_planets
      else firdaria_planets)"

definition calculate_firdaria_subperiod ::
    "body \<Rightarrow> int \<Rightarrow> real \<Rightarrow> error + subperiod option" where
  "calculate_firdaria_subperiod major_planet total_years years_in =
     (let planets = subperiod_planets major_planet;
          sub_yrs = of_int total_years / 7
      in if sub_yrs = 0 then Inl ZeroDivisionError
         else
           let current_sub = py_int (years_in / sub_yrs)
           in if current_sub < int (length planets) then
                (case py_nth planets current_sub of
                   Inl e \<Rightarrow> Inl e
                 | Inr r \<Rightarrow> Inr (Some \<lparr>sub_ruler = r, sub_years = sub_yrs,
                                       sub_position = current_sub + 1\<rparr>))
              else Inr None)"

record firdaria =
  major_period :: body
  years_in_period :: real
  years_remaining :: real
  sub_period :: "subperiod option"
  period_years :: int
  fird_sequence :: "(body \<times> int) list"

text \<open>The \<^verbatim>\<open>for planet, years in sequence\<close> loop of lines 341-363 over the rest of the
  sequence, with the running total \<^verbatim>\<open>current_years\<close>.\<close>

fun firdaria_scan ::
    "(body \<times> int) list \<Rightarrow> real \<Rightarrow> int \<Rightarrow> (body \<times> int) list \<Rightarrow> error + firdaria option" where
  "firdaria_scan sequence years_elapsed current_years [] = Inr None"
| "firdaria_scan sequence years_elapsed current_years ((planet, years) # rest) =
     (if of_int current_years \<le> years_elapsed
         \<and> years_elapsed < of_int (current_years + years) then
        (let years_into_period = years_elapsed - of_int current_years
         in case calculate_firdaria_subperiod planet years years_into_period of
              Inl e \<Rightarrow> Inl e
            | Inr sp \<Rightarrow>
                Inr (Some \<lparr>major_period = planet, years_in_period = years_into_period,
                           years_remaining = of_int years - years_into_period,
                           sub_period = sp, period_years = years,
                           fird_sequence = sequence\<rparr>))
      else firdaria_scan sequence years_elapsed (current_years + years) rest)"

definition calculate_firdaria :: "clock \<Rightarrow> natal \<Rightarrow> int option \<Rightarrow> error + firdaria option" where
  "calculate_firdaria c n current_date =
     (let current = (case current_date of None \<Rightarrow> now c | Some d \<Rightarrow> of_int d);
          sequence = firdaria_sequence (firdaria_is_day_birth n);
          days_elapsed = \<lfloor>current - birth_datetime n\<rfloor>;
          years_elapsed = of_int days_elapsed / 365.25
      in firdaria_scan sequence years_elapsed 0 sequence)"

section \<open>Vimshottari Dasha\<close>

record dasha =
  mahadasha :: body
  dasha_start :: instant
  dasha_end :: instant
  dasha_yrs :: real

record antardasha =
  planet :: body
  antar_start :: instant
  antar_end :: instant
  antar_years :: real

record antardasha_result =
  current :: "antardasha option"
  upcoming :: "antardasha list"

record vimshottari =
  current_mahadasha :: dasha
  current_antardasha :: "antardasha option"
  next_antardashas :: "antardasha list"
  all_dashas :: "dasha list"

definition ayanamsa :: real where
  "ayanamsa = 24.12"

text \<open>The literal \<^verbatim>\<open>13.333333\<close> of lines 183, 184 and 202.\<close>

definition nakshatra_span :: real where
  "nakshatra_span = 13.333333"

definition nakshatra_rulers :: "body list" where
  "nakshatra_rulers =
     concat (replicate 3 [Ketu, Venus, Sun, Moon, Mars, Rahu, Jupiter, Saturn, Mercury])"

text \<open>Lines 176-180.\<close>

definition moon_sidereal :: "natal \<Rightarrow> real" where
  "moon_sidereal n =
     (let moon_tropical = longitude n Moon;
          sidereal = moon_tropical - ayanamsa
      in if sidereal < 0 then sidereal + 360 else sidereal)"

text \<open>Lines 183-184.\<close>

definition nakshatra :: "natal \<Rightarrow> int" where
  "nakshatra n = py_int (moon_sidereal n / nakshatra_span)"

definition nakshatra_degree :: "natal \<Rightarrow> real" where
  "nakshatra_degree n = py_fmod (moon_sidereal n) nakshatra_span"

text \<open>Lines 193-214: the starting ruler, its index in \<^verbatim>\<open>dasha_sequence\<close> and the first
  entry of \<^verbatim>\<open>dashas\<close>. The generator at line 199 raises \<^verbatim>\<open>StopIteration\<close> when no pair of
  \<^verbatim>\<open>dasha_sequence\<close> has the starting ruler.\<close>

definition first_dasha :: "natal \<Rightarrow> error + (nat \<times> dasha)" where
  "first_dasha n =
     (case py_nth nakshatra_rulers (nakshatra n) of
        Inl e \<Rightarrow> Inl e
      | Inr starting_ruler \<Rightarrow>
          (case list_index (map fst dasha_sequence) starting_ruler of
             Inl e \<Rightarrow> Inl StopIteration
           | Inr first_dasha_index \<Rightarrow>
               let first_dasha_years = snd (dasha_sequence ! first_dasha_index);
                   elapsed_portion = nakshatra_degree n / nakshatra_span;
                   remaining_years = of_int first_dasha_years * (1 - elapsed_portion);
                   current_dasha_end = birth_datetime n + remaining_years * 365.25
               in Inr (first_dasha_index,
                       \<lparr>mahadasha = starting_ruler, dasha_start = birth_datetime n,
                        dasha_end = current_dasha_end, dasha_yrs = remaining_years\<rparr>)))"

text \<open>The \<^verbatim>\<open>while\<close> loop of lines 217-229, returning the entries it appends to
  \<^verbatim>\<open>dashas\<close>; \<open>horizon\<close> is \<^verbatim>\<open>current_date + timedelta(days=365*10)\<close>.\<close>

function subsequent_dashas :: "instant \<Rightarrow> nat \<Rightarrow> instant \<Rightarrow> error + dasha list" where
  "subsequent_dashas horizon dasha_index current_dasha_end =
     (if current_dasha_end < horizon then
        (if dasha_index < length dasha_sequence then
           (case subsequent_dashas horizon ((dasha_index + 1) mod 9)
                   (current_dasha_end
                      + of_int (snd (dasha_sequence ! dasha_index)) * 365.25) of
              Inl e \<Rightarrow> Inl e
            | Inr ds \<Rightarrow>
                Inr (\<lparr>mahadasha = fst (dasha_sequence ! dasha_index),
                      dasha_start = current_dasha_end,
                      dasha_end = current_dasha_end
                        + of_int (snd (dasha_sequence ! dasha_index)) * 365.25,
                      dasha_yrs = of_int (snd (dasha_sequence ! dasha_index))\<rparr> # ds))
         else Inl IndexError)
      else Inr [])"
  by pat_completeness auto
termination
proof (relation "measure (\<lambda>(horizon, dasha_index, current_dasha_end).
                    nat \<lceil>horizon - current_dasha_end\<rceil>)")
  show "wf (measure (\<lambda>(horizon :: real, dasha_index :: nat, current_dasha_end).
                    nat \<lceil>horizon - current_dasha_end\<rceil>))"
    by simp
next
  fix horizon current_dasha_end :: real and dasha_index :: nat
  assume a: "current_dasha_end < horizon" and b: "dasha_index < length dasha_sequence"
  have "\<forall>p \<in> set dasha_sequence. 1 \<le> snd p"
    by (simp add: dasha_sequence_def)
  with b have "1 \<le> snd (dasha_sequence ! dasha_index)"
    using nth_mem by blast
  then have "(1 :: real) \<le> of_int (snd (dasha_sequence ! dasha_index))"
    by simp
  then have step: "(1 :: real) \<le> of_int (snd (dasha_sequence ! dasha_index)) * 365.25"
    by simp
  have "\<lceil>horizon - (current_dasha_end
            + of_int (snd (dasha_sequence ! dasha_index)) * 365.25)\<rceil>
        \<le> \<lceil>horizon - current_dasha_end - 1\<rceil>"
    using step by (intro ceiling_mono) simp
  also have "\<dots> = \<lceil>horizon - current_dasha_end\<rceil> - 1"
    by simp
  finally have "\<lceil>horizon - (current_dasha_end
            + of_int (snd (dasha_sequence ! dasha_index)) * 365.25)\<rceil>
        < \<lceil>horizon - current_dasha_end\<rceil>"
    by simp
  moreover have "0 < \<lceil>horizon - current_dasha_end\<rceil>"
    using a by simp
  ultimately show "((horizon, (dasha_index + 1) mod 9,
          current_dasha_end + of_int (snd (dasha_sequence ! dasha_index)) * 365.25),
         horizon, dasha_index, current_dasha_end)
        \<in> measure (\<lambda>(horizon, dasha_index, current_dasha_end).
                    nat \<lceil>horizon - current_dasha_end\<rceil>)"
    by simp
qed

declare subsequent_dashas.simps [simp del]

text \<open>The \<^verbatim>\<open>for planet in antardasha_sequence\<close> loop of lines 265-283 over the rest of
  the sequence, returning the entries it appends to \<^verbatim>\<open>antardashas\<close>.\<close>

fun antardasha_loop :: "dasha \<Rightarrow> instant \<Rightarrow> body list \<Rightarrow> error + antardasha list" where
  "antardasha_loop m current_start [] = Inr []"
| "antardasha_loop m current_start (p # rest) =
     (case dasha_years p of
        None \<Rightarrow> Inl KeyError
      | Some y \<Rightarrow>
          let years = (of_int y * dasha_yrs m) / 120;
              endt = current_start + years * 365.25;
              antardasha_data = \<lparr>planet = p, antar_start = current_start,
                                 antar_end = endt, antar_years = years\<rparr>
          in if endt > dasha_end m then Inr [antardasha_data]
             else (case antardasha_loop m endt rest of
                     Inl e \<Rightarrow> Inl e
                   | Inr later \<Rightarrow> Inr (antardasha_data # later)))"

text \<open>Lines 256-263 and the loop: the list \<^verbatim>\<open>antardashas\<close> of a mahadasha.\<close>

definition antardashas_of :: "dasha \<Rightarrow> error + antardasha list" where
  "antardashas_of m =
     (case list_index antardasha_base (mahadasha m) of
        Inl e \<Rightarrow> Inl e
      | Inr start_index \<Rightarrow>
          antardasha_loop m (dasha_start m)
            (drop start_index antardasha_base @ take start_index antardasha_base))"

text \<open>\<^verbatim>\<open>_calculate_antardasha\<close>. The argument is \<^verbatim>\<open>None\<close> when no mahadasha holds the
  date, and subscripting it raises \<^verbatim>\<open>TypeError\<close>. \<^verbatim>\<open>current_antardasha\<close> is assigned at
  every entry that holds the date, so the last such entry remains.\<close>

definition calculate_antardasha :: "dasha option \<Rightarrow> instant \<Rightarrow> error + antardasha_result" where
  "calculate_antardasha md current_date =
     (case md of
        None \<Rightarrow> Inl TypeError
      | Some m \<Rightarrow>
          (case antardashas_of m of
             Inl e \<Rightarrow> Inl e
           | Inr antardashas \<Rightarrow>
               Inr \<lparr>current =
                      (case filter (\<lambda>a. antar_start a \<le> current_date
                                         \<and> current_date < antar_end a) antardashas of
                         [] \<Rightarrow> None
                       | x # xs \<Rightarrow> Some (last (x # xs))),
                    upcoming =
                      take 3 (filter (\<lambda>a. antar_start a > current_date) antardashas)\<rparr>))"

text \<open>\<^verbatim>\<open>calculate_vimshottari_dasha\<close>. The result's \<^verbatim>\<open>current_mahadasha\<close> is never
  \<^verbatim>\<open>None\<close>, because \<^verbatim>\<open>_calculate_antardasha\<close> raises on \<^verbatim>\<open>None\<close> before the result is
  built.\<close>

definition calculate_vimshottari_dasha ::
    "clock \<Rightarrow> natal \<Rightarrow> int option \<Rightarrow> error + vimshottari" where
  "calculate_vimshottari_dasha c n current_date_arg =
     (let current_date = (case current_date_arg of None \<Rightarrow> now c | Some d \<Rightarrow> of_int d)
      in case first_dasha n of
           Inl e \<Rightarrow> Inl e
         | Inr (first_dasha_index, first) \<Rightarrow>
             (case subsequent_dashas (current_date + 365 * 10)
                     ((first_dasha_index + 1) mod 9) (dasha_end first) of
                Inl e \<Rightarrow> Inl e
              | Inr later \<Rightarrow>
                  let dashas = first # later;
                      current_dasha = find (\<lambda>d. dasha_start d \<le> current_date
                                                 \<and> current_date < dasha_end d) dashas
                  in (case calculate_antardasha current_dasha current_date of
                        Inl e \<Rightarrow> Inl e
                      | Inr a \<Rightarrow>
                          (case current_dasha of
                             None \<Rightarrow> Inl TypeError
                           | Some m \<Rightarrow>
                               Inr \<lparr>current_mahadasha = m,
                                    current_antardasha = current a,
                                    next_antardashas = upcoming a,
                                    all_dashas = dashas\<rparr>))))"

section \<open>Annual profections\<close>

text \<open>\<^verbatim>\<open>calculate_annual_profections\<close>. Of the returned dictionary, \<^verbatim>\<open>lord_condition\<close> and
  \<^verbatim>\<open>activated_topics\<close> are left out: they are read from the natal chart, the time lord and
  the profected house alone.\<close>

record profection =
  year_age :: int
  profected_house :: int
  profected_sign :: sign
  time_lord :: body
  monthly_profection :: int

definition calculate_annual_profections ::
    "clock \<Rightarrow> natal \<Rightarrow> real option \<Rightarrow> error + profection" where
  "calculate_annual_profections c n current_age_arg =
     (let current_age0 = (case current_age_arg of
                            None \<Rightarrow> of_int \<lfloor>now c - birth_datetime n\<rfloor> / 365.25
                          | Some a \<Rightarrow> a);
          current_age = py_int current_age0;
          house = (current_age mod 12) + 1
      in case py_nth (cusps n) (house - 1) of
           Inl e \<Rightarrow> Inl e
         | Inr house_cusp \<Rightarrow>
             (case get_zodiac_sign house_cusp of
                Inl e \<Rightarrow> Inl e
              | Inr s \<Rightarrow>
                  let current_month = now_month c
                  in Inr \<lparr>year_age = current_age, profected_house = house,
                          profected_sign = s, time_lord = get_sign_ruler s,
                          monthly_profection =
                            ((house - 1 + current_month - 1) mod 12) + 1\<rparr>))"

section \<open>Transits and eclipses\<close>

text \<open>What the Swiss Ephemeris supplies: the longitude of a transiting planet at noon of
  a date (\<^verbatim>\<open>calculate_transits\<close>), the longitudes of the Sun and of the true node at a
  check date (\<^verbatim>\<open>calculate_eclipse_sensitivity\<close>), and the number of progressed aspects
  that \<^verbatim>\<open>calculate_progressed_angles\<close> finds for a date.\<close>

record ephemeris =
  transit_longitude :: "int \<Rightarrow> body \<Rightarrow> real"
  sun_at :: "instant \<Rightarrow> real"
  node_at :: "instant \<Rightarrow> real"
  progressed_aspects :: "int \<Rightarrow> nat"

datatype aspect = Conjunction | Opposition | Square | Trine | Sextile

record transit =
  transiting :: body
  natal_planet :: body
  transit_aspect :: aspect
  transit_orb :: real
  transit_date :: int

text \<open>The keys of \<^verbatim>\<open>calculate_planets()\<close> and of \<^verbatim>\<open>planet_ids\<close>, in insertion order.\<close>

definition natal_names :: "body list" where
  "natal_names = [Sun, Moon, Mercury, Venus, Mars, Jupiter, Saturn,
                  Uranus, Neptune, Pluto, North_node, Chiron]"

definition planet_ids :: "body list" where
  "planet_ids = [Sun, Moon, Mercury, Venus, Mars, Jupiter, Saturn,
                 Uranus, Neptune, Pluto]"

definition aspect_orbs :: "(aspect \<times> real) list" where
  "aspect_orbs = [(Conjunction, 8), (Opposition, 8), (Square, 8), (Trine, 8), (Sextile, 6)]"

fun aspect_angle :: "aspect \<Rightarrow> real" where
  "aspect_angle Conjunction = 0"
| "aspect_angle Opposition = 180"
| "aspect_angle Square = 90"
| "aspect_angle Trine = 120"
| "aspect_angle Sextile = 60"

text \<open>\<^verbatim>\<open>calculate_transits\<close> of the calculator: the three nested iterations of lines 147-162.\<close>

definition calculate_transits :: "ephemeris \<Rightarrow> natal \<Rightarrow> int \<Rightarrow> transit list" where
  "calculate_transits eph n target_date =
     concat (map (\<lambda>transit_planet.
       concat (map (\<lambda>natal_pl.
         (let transit_pos = transit_longitude eph target_date transit_planet;
              natal_pos = longitude n natal_pl;
              diff0 = \<bar>transit_pos - natal_pos\<bar>;
              diff = (if diff0 > 180 then 360 - diff0 else diff0)
          in concat (map (\<lambda>(asp, orb).
               if \<bar>diff - aspect_angle asp\<bar> \<le> orb
               then [\<lparr>transiting = transit_planet, natal_planet = natal_pl,
                      transit_aspect = asp, transit_orb = \<bar>diff - aspect_angle asp\<bar>,
                      transit_date = target_date\<rparr>]
               else []) aspect_orbs)))
         natal_names))
       planet_ids)"

record eclipse =
  eclipse_date :: instant
  eclipse_degree :: real
  natal_point :: string
  natal_degree :: real
  eclipse_orb :: real

text \<open>\<^verbatim>\<open>calculate_eclipse_sensitivity\<close> with its default \<^verbatim>\<open>years_range=2\<close>:
  \<^verbatim>\<open>range(0, 2 * 365, 173)\<close> is 0, 173, 346, 519, 692.\<close>

definition calculate_eclipse_sensitivity :: "ephemeris \<Rightarrow> clock \<Rightarrow> natal \<Rightarrow> eclipse list" where
  "calculate_eclipse_sensitivity eph c n =
     (let check_points = [(''sun'', longitude n Sun), (''moon'', longitude n Moon),
                          (''asc'', asc n), (''mc'', mc n)];
          current_date = now c
      in concat (map (\<lambda>days :: int.
           (let check_date = current_date + of_int days;
                sun_pos = sun_at eph check_date;
                node_pos = node_at eph check_date
            in if \<bar>sun_pos - node_pos\<bar> < 18 then
                 concat (map (\<lambda>(point_name, natal_deg).
                   if \<bar>sun_pos - natal_deg\<bar> < 5
                   then [\<lparr>eclipse_date = check_date, eclipse_degree = sun_pos,
                          natal_point = point_name, natal_degree = natal_deg,
                          eclipse_orb = \<bar>sun_pos - natal_deg\<bar>\<rparr>]
                   else []) check_points)
               else []))
           [0, 173, 346, 519, 692]))"

section \<open>Composite timing analysis\<close>

record factors =
  factor_date :: int
  factor_transits :: nat
  profection_activated :: profection
  factor_progressions :: nat
  factor_dasha :: body
  factor_firdaria :: "body option"
  intensity_score :: int

text \<open>Lines 662-665: the loop over the eclipses, from the score so far.\<close>

definition eclipse_proximity :: "eclipse list \<Rightarrow> instant \<Rightarrow> int \<Rightarrow> int" where
  "eclipse_proximity eclipses current_day score =
     fold (\<lambda>e s. if \<bar>\<lfloor>eclipse_date e - current_day\<rfloor>\<bar> < 30 then s + 10 else s)
       eclipses score"

text \<open>Lines 646-667: the score of a date from the factors collected for it.\<close>

definition composite_score ::
    "transit list \<Rightarrow> body \<Rightarrow> body option \<Rightarrow> eclipse list \<Rightarrow> instant \<Rightarrow> int" where
  "composite_score transits dasha fird eclipses current_day =
     (let score0 = 0;
          hard_transits = filter (\<lambda>t. transit_aspect t \<in> set [Square, Opposition]) transits;
          score1 = score0 + int (length hard_transits) * 3;
          score2 = (if dasha \<in> set [Mars, Saturn, Rahu, Ketu] then score1 + 5 else score1);
          score3 = (if fird \<in> set [Some Mars, Some Saturn, Some South_node]
                    then score2 + 4 else score2)
      in eclipse_proximity eclipses current_day score3)"

text \<open>The body of the \<^verbatim>\<open>while current <= end\<close> loop, lines 634-668, for one date.\<close>

definition date_factors :: "ephemeris \<Rightarrow> clock \<Rightarrow> natal \<Rightarrow> int \<Rightarrow> error + factors" where
  "date_factors eph c n current_day =
     (case calculate_annual_profections c n None of
        Inl e \<Rightarrow> Inl e
      | Inr prof \<Rightarrow>
          (case calculate_vimshottari_dasha c n (Some current_day) of
             Inl e \<Rightarrow> Inl e
           | Inr v \<Rightarrow>
               (case calculate_firdaria c n (Some current_day) of
                  Inl e \<Rightarrow> Inl e
                | Inr f \<Rightarrow>
                    let dasha = mahadasha (current_mahadasha v);
                        fird = (case f of None \<Rightarrow> None | Some r \<Rightarrow> Some (major_period r))
                    in Inr \<lparr>factor_date = current_day,
                            factor_transits = length (calculate_transits eph n current_day),
                            profection_activated = prof,
                            factor_progressions = progressed_aspects eph current_day,
                            factor_dasha = dasha,
                            factor_firdaria = fird,
                            intensity_score =
                              composite_score (calculate_transits eph n current_day) dasha fird
                                (calculate_eclipse_sensitivity eph c n)
                                (of_int current_day)\<rparr>)))"

text \<open>The loop over the dates; the first exception ends it.\<close>

fun analyse_dates :: "ephemeris \<Rightarrow> clock \<Rightarrow> natal \<Rightarrow> int list \<Rightarrow> error + factors list" where
  "analyse_dates eph c n [] = Inr []"
| "analyse_dates eph c n (d # ds) =
     (case date_factors eph c n d of
        Inl e \<Rightarrow> Inl e
      | Inr f \<Rightarrow>
          (case analyse_dates eph c n ds of
             Inl e \<Rightarrow> Inl e
           | Inr fs \<Rightarrow> Inr (f # fs)))"

record composite =
  peak_intensity_dates :: "factors list"
  full_analysis :: "factors list"

text \<open>\<^verbatim>\<open>composite_timing_analysis\<close>: the dates from \<open>range_start\<close> to \<open>range_end\<close>
  inclusive, then the stable sort by descending score.\<close>

definition composite_timing_analysis ::
    "ephemeris \<Rightarrow> clock \<Rightarrow> natal \<Rightarrow> int \<Rightarrow> int \<Rightarrow> error + composite" where
  "composite_timing_analysis eph c n range_start range_end =
     (case analyse_dates eph c n [range_start..range_end] of
        Inl e \<Rightarrow> Inl e
      | Inr analysis \<Rightarrow>
          let sorted_analysis = sort_key (\<lambda>f. - intensity_score f) analysis
          in Inr \<lparr>peak_intensity_dates = take 10 sorted_analysis,
                  full_analysis = sorted_analysis\<rparr>)"

section \<open>A chart for the examples\<close>

text \<open>A day birth at instant 0: Ascendant 85, Sun 175, Moon 100, so that the Part of
  Fortune is at 10 (Aries) and the Lot of Spirit at 160 (Virgo); the Moon's sidereal
  longitude is 75.88.\<close>

definition example_chart :: natal where
  "example_chart =
     \<lparr>birth_datetime = 0,
      longitude = (\<lambda>b. if b = Sun then 175 else if b = Moon then 100 else 0),
      asc = 85, mc = 0,
      cusps = [85, 115, 145, 175, 205, 235, 265, 295, 325, 355, 25, 55]\<rparr>"

definition example_clock :: clock where
  "example_clock = \<lparr>now = 12000, now_month = 11\<rparr>"

text \<open>An ephemeris for the examples: every transiting planet at longitude 40, the Sun
  and the true node at 0 on every check date, no progressed aspects.\<close>

definition example_ephemeris :: ephemeris where
  "example_ephemeris =
     \<lparr>transit_longitude = (\<lambda>d b. 40), sun_at = (\<lambda>t. 0), node_at = (\<lambda>t. 0),
      progressed_aspects = (\<lambda>d. 0)\<rparr>"

section \<open>Registry totals\<close>

text \<open>
  Claim C2, as amended. The nine Vimshottari ruler-years sum to 120, in the table of
  \<^verbatim>\<open>calculate_vimshottari_dasha\<close> and in that of \<^verbatim>\<open>_calculate_antardasha\<close>; the nine
  Firdaria ruler-years sum to 75 in the day-birth and in the night-birth sequence; the
  twelve Zodiacal Releasing sign-years are 15, 8, 20, 25, 19, 20, 8, 15, 12, 27, 30, 12 for
  Aries through Pisces and sum to 211 for one full pass.
\<close>

theorem registry_totals:
  "length dasha_sequence = 9 \<and> sum_list (map snd dasha_sequence) = 120
   \<and> map dasha_years antardasha_base = map (Some \<circ> snd) dasha_sequence
   \<and> map fst dasha_sequence = antardasha_base
   \<and> length (firdaria_sequence True) = 9 \<and> sum_list (map snd (firdaria_sequence True)) = 75
   \<and> length (firdaria_sequence False) = 9 \<and> sum_list (map snd (firdaria_sequence False)) = 75
   \<and> map sign_periods signs = [15, 8, 20, 25, 19, 20, 8, 15, 12, 27, 30, 12]
   \<and> sum_list (map sign_periods signs) = 211"
  by (simp add: dasha_sequence_def dasha_years_def antardasha_base_def
      firdaria_sequence_def signs_def)

text \<open>
  Claim C2 as stated fails: one full pass through the twelve sign-years is not 231 years.
\<close>

theorem releasing_total_counterexample:
  "sum_list (map sign_periods signs) \<noteq> 231"
  by (simp add: signs_def)

section \<open>Day-birth tests\<close>

text \<open>
  Claim C10. For every natal chart the day-birth test that selects the Firdaria sequence
  and the day-birth test that selects the Lot of Spirit formula agree, and both hold
  exactly when the Sun's longitude is greater than the Ascendant or less than the
  Ascendant minus 180 degrees. Accordingly the sequence that \<^verbatim>\<open>calculate_firdaria\<close>
  walks is the day sequence exactly when \<^verbatim>\<open>_calculate_lot_of_spirit\<close> takes its day
  formula, Ascendant plus Sun minus Moon.
\<close>

theorem day_birth_tests_agree:
  "firdaria_is_day_birth n = spirit_is_day_birth n
   \<and> firdaria_is_day_birth n = (longitude n Sun > asc n \<or> longitude n Sun < asc n - 180)
   \<and> spirit_is_day_birth n = (longitude n Sun > asc n \<or> longitude n Sun < asc n - 180)
   \<and> (calculate_firdaria c n q = Inr (Some r) \<longrightarrow>
        fird_sequence r = firdaria_sequence (spirit_is_day_birth n))
   \<and> calculate_lot_of_spirit n =
       (let spirit = (if firdaria_is_day_birth n
                      then asc n + longitude n Sun - longitude n Moon
                      else asc n + longitude n Moon - longitude n Sun)
        in if spirit < 0 then spirit + 360
           else if spirit > 360 then spirit - 360
           else spirit)"
proof -
  have same: "firdaria_is_day_birth n = spirit_is_day_birth n"
    by (simp add: firdaria_is_day_birth_def spirit_is_day_birth_def Let_def)
  have seq: "fird_sequence r = sq"
    if "firdaria_scan sq ye cy rest = Inr (Some r)" for sq ye cy rest
    using that
  proof (induction rest arbitrary: cy)
    case Nil
    then show ?case by simp
  next
    case (Cons a rest)
    then show ?case
      by (cases a) (auto simp: Let_def split: if_splits sum.splits)
  qed
  have "fird_sequence r = firdaria_sequence (spirit_is_day_birth n)"
    if "calculate_firdaria c n q = Inr (Some r)"
    using that seq unfolding same [symmetric]
    by (simp add: calculate_firdaria_def Let_def)
  then show ?thesis
    by (simp add: firdaria_is_day_birth_def spirit_is_day_birth_def
        calculate_lot_of_spirit_def Let_def)
qed

theorem day_birth_tests_agree_witness:
  "calculate_firdaria example_clock example_chart (Some 0) =
     Inr (Some \<lparr>major_period = Sun, years_in_period = 0, years_remaining = 10,
                sub_period = Some \<lparr>sub_ruler = Sun, sub_years = 10 / 7, sub_position = 1\<rparr>,
                period_years = 10, fird_sequence = firdaria_sequence True\<rparr>)
   \<and> spirit_is_day_birth example_chart
   \<and> calculate_lot_of_spirit example_chart = 160"
proof -
  have run: "calculate_firdaria example_clock example_chart (Some 0) =
     Inr (Some \<lparr>major_period = Sun, years_in_period = 0, years_remaining = 10,
                sub_period = Some \<lparr>sub_ruler = Sun, sub_years = 10 / 7, sub_position = 1\<rparr>,
                period_years = 10, fird_sequence = firdaria_sequence True\<rparr>)"
    by (simp add: calculate_firdaria_def firdaria_is_day_birth_def example_chart_def
        firdaria_sequence_def calculate_firdaria_subperiod_def subperiod_planets_def
        firdaria_planets_def py_int_def py_nth_def Let_def)
  have day: "spirit_is_day_birth example_chart"
    by (simp add: spirit_is_day_birth_def example_chart_def Let_def)
  have lot: "calculate_lot_of_spirit example_chart = 160"
    by (simp add: calculate_lot_of_spirit_def spirit_is_day_birth_def example_chart_def Let_def)
  from day_birth_tests_agree [of example_chart example_clock "Some 0"
      "\<lparr>major_period = Sun, years_in_period = 0, years_remaining = 10,
        sub_period = Some \<lparr>sub_ruler = Sun, sub_years = 10 / 7, sub_position = 1\<rparr>,
        period_years = 10, fird_sequence = firdaria_sequence True\<rparr>"] run day lot
  show ?thesis by blast
qed

section \<open>Zodiacal Releasing: the walk\<close>

lemma sign_periods_pos: "0 < sign_periods s"
  by (cases s) simp_all

lemma zr_period_days_pos: "0 < zr_period_days l s"
  using sign_periods_pos [of s] by (simp add: zr_period_days_def Let_def)

lemma zr_walk_stop:
  "\<not> (cd < de \<and> l \<le> 4) \<Longrightarrow> zr_walk f de cd s l = []"
  by (subst zr_walk.simps) simp

lemma zr_walk_descend:
  "cd < de \<Longrightarrow> l \<le> 4 \<Longrightarrow> cd + zr_period_days l s > de \<Longrightarrow>
   zr_walk f de cd s l =
     zr_entry f l s cd
       # zr_walk f de cd (if l + 1 \<le> 4 then get_next_zr_sign s else s) (l + 1)"
  by (subst zr_walk.simps) simp

lemma zr_walk_advance:
  "cd < de \<Longrightarrow> l \<le> 4 \<Longrightarrow> \<not> cd + zr_period_days l s > de \<Longrightarrow>
   zr_walk f de cd s l =
     zr_entry f l s cd # zr_walk f de (cd + zr_period_days l s) (get_next_sign s) l"
  by (subst zr_walk.simps) simp

lemma zr_walk_hd:
  "zr_walk f de cd s l \<noteq> [] \<Longrightarrow> hd (zr_walk f de cd s l) = zr_entry f l s cd"
  by (subst zr_walk.simps) (auto simp: zr_walk_stop)

lemma zr_walk_entry:
  "p \<in> set (zr_walk f de cd s l) \<Longrightarrow> 1 \<le> l \<Longrightarrow>
     l \<le> zr_level p \<and> zr_level p \<le> 4
     \<and> end_days p - start_days p = zr_period_days (zr_level p) (zr_sign p)"
proof (induction f de cd s l rule: zr_walk.induct)
  case (1 f de cd s l)
  show ?case
  proof (cases "cd < de \<and> l \<le> 4")
    case False
    with "1.prems" show ?thesis by (simp add: zr_walk_stop)
  next
    case True
    note run = True
    show ?thesis
    proof (cases "cd + zr_period_days l s > de")
      case True
      with run "1.prems" have
        "p = zr_entry f l s cd \<or>
         p \<in> set (zr_walk f de cd (if l + 1 \<le> 4 then get_next_zr_sign s else s) (l + 1))"
        by (simp add: zr_walk_descend)
      then show ?thesis
      proof
        assume "p = zr_entry f l s cd"
        with run show ?thesis by (simp add: zr_entry_def)
      next
        assume "p \<in> set (zr_walk f de cd (if l + 1 \<le> 4 then get_next_zr_sign s else s) (l + 1))"
        with "1.IH"(1) [OF run True] "1.prems" show ?thesis by simp
      qed
    next
      case False
      with run "1.prems" have
        "p = zr_entry f l s cd \<or>
         p \<in> set (zr_walk f de (cd + zr_period_days l s) (get_next_sign s) l)"
        by (simp add: zr_walk_advance)
      then show ?thesis
      proof
        assume "p = zr_entry f l s cd"
        with run show ?thesis by (simp add: zr_entry_def)
      next
        assume "p \<in> set (zr_walk f de (cd + zr_period_days l s) (get_next_sign s) l)"
        with "1.IH"(2) [OF run False] "1.prems" show ?thesis by simp
      qed
    qed
  qed
qed

lemma zr_walk_example:
  "zr_walk Aries 100 0 Virgo 1 =
     [\<lparr>zr_level = 1, zr_sign = Virgo, zr_ruler = Mercury, start_days = 0,
        end_days = 7200, peak = False, loosening = False\<rparr>,
      \<lparr>zr_level = 2, zr_sign = Leo, zr_ruler = Sun, start_days = 0,
        end_days = 570, peak = False, loosening = False\<rparr>,
      \<lparr>zr_level = 3, zr_sign = Cancer, zr_ruler = Moon, start_days = 0,
        end_days = 175, peak = True, loosening = False\<rparr>,
      \<lparr>zr_level = 4, zr_sign = Gemini, zr_ruler = Mercury, start_days = 0,
        end_days = 20, peak = False, loosening = False\<rparr>,
      \<lparr>zr_level = 4, zr_sign = Cancer, zr_ruler = Moon, start_days = 20,
        end_days = 45, peak = True, loosening = False\<rparr>,
      \<lparr>zr_level = 4, zr_sign = Leo, zr_ruler = Sun, start_days = 45,
        end_days = 64, peak = False, loosening = False\<rparr>,
      \<lparr>zr_level = 4, zr_sign = Virgo, zr_ruler = Mercury, start_days = 64,
        end_days = 84, peak = False, loosening = False\<rparr>,
      \<lparr>zr_level = 4, zr_sign = Libra, zr_ruler = Venus, start_days = 84,
        end_days = 92, peak = True, loosening = False\<rparr>,
      \<lparr>zr_level = 4, zr_sign = Scorpio, zr_ruler = Mars, start_days = 92,
        end_days = 107, peak = False, loosening = True\<rparr>]"
  by (simp add: zr_walk.simps zr_entry_def zr_period_days_def get_next_sign_def
      get_next_zr_sign_def signs_def is_peak_period_def get_angular_signs_from_fortune_def
      check_loosening_bond_def)

lemma example_releasing:
  "calculate_zodiacal_releasing example_clock example_chart ''spirit'' (Some 100)
     = Inr (zr_walk Aries 100 0 Virgo 1)"
  by (simp add: calculate_zodiacal_releasing_def calculate_arabic_parts_def
      calculate_lot_of_spirit_def spirit_is_day_birth_def get_zodiac_sign_def py_nth_def
      py_int_def signs_def example_chart_def Let_def)

lemma sign_steps:
  "sign_index (get_next_sign s) = (sign_index s + 1) mod 12
   \<and> sign_index (get_next_zr_sign s) = (sign_index s + 11) mod 12
   \<and> get_next_sign (get_next_zr_sign s) = s
   \<and> get_next_zr_sign s \<noteq> s"
  by (cases s) (simp_all add: get_next_sign_def get_next_zr_sign_def signs_def)

lemma zr_walk_adjacent:
  "Suc i < length (zr_walk f de cd s l) \<Longrightarrow>
   (if end_days (zr_walk f de cd s l ! i) > de then
      zr_level (zr_walk f de cd s l ! Suc i) = zr_level (zr_walk f de cd s l ! i) + 1
      \<and> zr_sign (zr_walk f de cd s l ! Suc i)
          = get_next_zr_sign (zr_sign (zr_walk f de cd s l ! i))
      \<and> start_days (zr_walk f de cd s l ! Suc i) = start_days (zr_walk f de cd s l ! i)
    else
      zr_level (zr_walk f de cd s l ! Suc i) = zr_level (zr_walk f de cd s l ! i)
      \<and> zr_sign (zr_walk f de cd s l ! Suc i)
          = get_next_sign (zr_sign (zr_walk f de cd s l ! i))
      \<and> start_days (zr_walk f de cd s l ! Suc i) = end_days (zr_walk f de cd s l ! i))"
proof (induction f de cd s l arbitrary: i rule: zr_walk.induct)
  case (1 f de cd s l)
  have run: "cd < de \<and> l \<le> 4"
    using "1.prems" by (cases "cd < de \<and> l \<le> 4") (simp_all add: zr_walk_stop)
  show ?case
  proof (cases "cd + zr_period_days l s > de")
    case True
    define rest where
      "rest = zr_walk f de cd (if l + 1 \<le> 4 then get_next_zr_sign s else s) (l + 1)"
    have unfold: "zr_walk f de cd s l = zr_entry f l s cd # rest"
      using run True by (simp add: zr_walk_descend rest_def)
    show ?thesis
    proof (cases i)
      case 0
      with "1.prems" unfold have ne: "rest \<noteq> []" by auto
      then have l4: "l + 1 \<le> 4"
        by (cases "l + 1 \<le> 4") (simp_all add: rest_def zr_walk_stop)
      from ne have "rest ! 0 = zr_entry f (l + 1) (get_next_zr_sign s) cd"
        using zr_walk_hd [of f de cd "get_next_zr_sign s" "l + 1"] l4
        by (simp add: rest_def hd_conv_nth)
      with 0 True show ?thesis
        by (simp add: unfold zr_entry_def)
    next
      case (Suc j)
      with "1.prems" unfold have len: "Suc j < length rest" by simp
      have "Suc j < length rest \<Longrightarrow>
        (if end_days (rest ! j) > de then
           zr_level (rest ! Suc j) = zr_level (rest ! j) + 1
           \<and> zr_sign (rest ! Suc j) = get_next_zr_sign (zr_sign (rest ! j))
           \<and> start_days (rest ! Suc j) = start_days (rest ! j)
         else
           zr_level (rest ! Suc j) = zr_level (rest ! j)
           \<and> zr_sign (rest ! Suc j) = get_next_sign (zr_sign (rest ! j))
           \<and> start_days (rest ! Suc j) = end_days (rest ! j))"
        unfolding rest_def by (rule "1.IH"(1) [OF run True])
      from this [OF len] show ?thesis
        unfolding unfold Suc by simp
    qed
  next
    case False
    define rest where
      "rest = zr_walk f de (cd + zr_period_days l s) (get_next_sign s) l"
    have unfold: "zr_walk f de cd s l = zr_entry f l s cd # rest"
      using run False by (simp add: zr_walk_advance rest_def)
    show ?thesis
    proof (cases i)
      case 0
      with "1.prems" unfold have ne: "rest \<noteq> []" by auto
      then have "rest ! 0 = zr_entry f l (get_next_sign s) (cd + zr_period_days l s)"
        using zr_walk_hd [of f de "cd + zr_period_days l s" "get_next_sign s" l]
        by (simp add: rest_def hd_conv_nth)
      with 0 False show ?thesis
        by (simp add: unfold zr_entry_def)
    next
      case (Suc j)
      with "1.prems" unfold have len: "Suc j < length rest" by simp
      have "Suc j < length rest \<Longrightarrow>
        (if end_days (rest ! j) > de then
           zr_level (rest ! Suc j) = zr_level (rest ! j) + 1
           \<and> zr_sign (rest ! Suc j) = get_next_zr_sign (zr_sign (rest ! j))
           \<and> start_days (rest ! Suc j) = start_days (rest ! j)
         else
           zr_level (rest ! Suc j) = zr_level (rest ! j)
           \<and> zr_sign (rest ! Suc j) = get_next_sign (zr_sign (rest ! j))
           \<and> start_days (rest ! Suc j) = end_days (rest ! j))"
        unfolding rest_def by (rule "1.IH"(2) [OF run False])
      from this [OF len] show ?thesis
        unfolding unfold Suc by simp
    qed
  qed
qed

subsection \<open>Spans of the levels\<close>

text \<open>
  Claim C4, as amended. In Zodiacal Releasing the same numeric table applies at every
  level with a fixed number of days per unit: a sign valued \<open>n\<close> spans \<open>n \<times> 360\<close> days at
  level 1 (a Leo period of 19 years spans exactly \<open>19 \<times> 360\<close> days), \<open>n \<times> 30\<close> days at level
  2, \<open>n \<times> 7\<close> days at level 3 and \<open>n\<close> days at level 4; every entry that
  \<^verbatim>\<open>calculate_zodiacal_releasing\<close> returns has a level from 1 to 4 and spans the days of
  its sign at its level.
\<close>

theorem releasing_level_spans:
  "zr_period_days 1 s = sign_periods s * 360
   \<and> zr_period_days 2 s = sign_periods s * 30
   \<and> zr_period_days 3 s = sign_periods s * 7
   \<and> zr_period_days 4 s = sign_periods s
   \<and> zr_period_days 1 Leo = 19 * 360
   \<and> (calculate_zodiacal_releasing c n lot d = Inr ps \<and> p \<in> set ps \<longrightarrow>
        zr_level p \<in> {1, 2, 3, 4}
        \<and> end_days p - start_days p
            = sign_periods (zr_sign p)
              * (if zr_level p = 1 then 360 else if zr_level p = 2 then 30
                 else if zr_level p = 3 then 7 else 1))"
proof -
  have walk: "zr_level p \<in> {1, 2, 3, 4}
        \<and> end_days p - start_days p
            = sign_periods (zr_sign p)
              * (if zr_level p = 1 then 360 else if zr_level p = 2 then 30
                 else if zr_level p = 3 then 7 else 1)"
    if "p \<in> set (zr_walk f de 0 s0 1)" for f de s0
  proof -
    from zr_walk_entry [OF that] have
      lv: "1 \<le> zr_level p" "zr_level p \<le> 4"
      and span: "end_days p - start_days p = zr_period_days (zr_level p) (zr_sign p)"
      by simp_all
    from lv have "zr_level p = 1 \<or> zr_level p = 2 \<or> zr_level p = 3 \<or> zr_level p = 4"
      by arith
    then show ?thesis
      using span by (auto simp: zr_period_days_def Let_def)
  qed
  have "zr_level p \<in> {1, 2, 3, 4}
        \<and> end_days p - start_days p
            = sign_periods (zr_sign p)
              * (if zr_level p = 1 then 360 else if zr_level p = 2 then 30
                 else if zr_level p = 3 then 7 else 1)"
    if "calculate_zodiacal_releasing c n lot d = Inr ps" and "p \<in> set ps"
    using that walk
    by (auto simp: calculate_zodiacal_releasing_def Let_def split: sum.splits)
  then show ?thesis
    by (simp add: zr_period_days_def Let_def)
qed

theorem releasing_level_spans_witness:
  "calculate_zodiacal_releasing example_clock example_chart ''spirit'' (Some 100)
     = Inr (zr_walk Aries 100 0 Virgo 1)
   \<and> zr_walk Aries 100 0 Virgo 1 ! 1 \<in> set (zr_walk Aries 100 0 Virgo 1)
   \<and> zr_level (zr_walk Aries 100 0 Virgo 1 ! 1) = 2
   \<and> zr_sign (zr_walk Aries 100 0 Virgo 1 ! 1) = Leo
   \<and> end_days (zr_walk Aries 100 0 Virgo 1 ! 1) - start_days (zr_walk Aries 100 0 Virgo 1 ! 1)
       = 19 * 30"
  using releasing_level_spans [of Leo example_clock example_chart "''spirit''" "Some 100"
      "zr_walk Aries 100 0 Virgo 1" "zr_walk Aries 100 0 Virgo 1 ! 1"]
  by (simp add: example_releasing zr_walk_example)

text \<open>
  Claim C4 as stated fails at level 2: the period of Leo, valued 19, spans exactly
  \<open>19 \<times> 30\<close> days there, as in the walk of 100 elapsed days that starts in Virgo.
\<close>

theorem releasing_month_counterexample:
  "zr_period_days 2 Leo = 19 * 30
   \<and> zr_level (zr_walk Aries 100 0 Virgo 1 ! 1) = 2
   \<and> zr_sign (zr_walk Aries 100 0 Virgo 1 ! 1) = Leo
   \<and> end_days (zr_walk Aries 100 0 Virgo 1 ! 1) - start_days (zr_walk Aries 100 0 Virgo 1 ! 1)
       = 19 * 30"
  by (simp add: zr_walk_example zr_period_days_def)

subsection \<open>Advancing and descending\<close>

text \<open>
  Claim C5. Take two consecutive entries of the Zodiacal Releasing walk. When the span of
  the first does not carry the cursor past the query day, the second has the same level,
  the next sign in zodiacal order (Pisces wraps to Aries) and starts where the first
  ends. When the span of the first would carry the cursor past the query day, the second
  is exactly one level deeper, starts at the same day and has the sign eleven positions
  forward of the first, which is the sign one position backward and never the same sign.
  The list that \<^verbatim>\<open>calculate_zodiacal_releasing\<close> returns is such a walk, from day 0 at
  level 1 to the whole days elapsed at the query instant.
\<close>

theorem releasing_walk_steps:
  "(Suc i < length (zr_walk f de cd s l) \<longrightarrow>
     (if end_days (zr_walk f de cd s l ! i) > de then
        zr_level (zr_walk f de cd s l ! Suc i) = zr_level (zr_walk f de cd s l ! i) + 1
        \<and> zr_sign (zr_walk f de cd s l ! Suc i)
            = get_next_zr_sign (zr_sign (zr_walk f de cd s l ! i))
        \<and> start_days (zr_walk f de cd s l ! Suc i) = start_days (zr_walk f de cd s l ! i)
      else
        zr_level (zr_walk f de cd s l ! Suc i) = zr_level (zr_walk f de cd s l ! i)
        \<and> zr_sign (zr_walk f de cd s l ! Suc i)
            = get_next_sign (zr_sign (zr_walk f de cd s l ! i))
        \<and> start_days (zr_walk f de cd s l ! Suc i) = end_days (zr_walk f de cd s l ! i)))
   \<and> (calculate_zodiacal_releasing c n lot q = Inr ps \<longrightarrow>
        (\<exists>f0 s0. ps = zr_walk f0
           \<lfloor>(case q of None \<Rightarrow> now c | Some d \<Rightarrow> of_int d) - birth_datetime n\<rfloor> 0 s0 1))
   \<and> sign_index (get_next_sign x) = (sign_index x + 1) mod 12
   \<and> get_next_sign Pisces = Aries
   \<and> sign_index (get_next_zr_sign x) = (sign_index x + 11) mod 12
   \<and> get_next_sign (get_next_zr_sign x) = x
   \<and> get_next_zr_sign x \<noteq> x
   \<and> signs ! sign_index x = x"
proof -
  have "get_next_sign Pisces = Aries"
    by (simp add: get_next_sign_def signs_def)
  moreover have "signs ! sign_index x = x"
    by (cases x) (simp_all add: signs_def)
  moreover have "\<exists>f0 s0. ps = zr_walk f0
           \<lfloor>(case q of None \<Rightarrow> now c | Some d \<Rightarrow> of_int d) - birth_datetime n\<rfloor> 0 s0 1"
    if "calculate_zodiacal_releasing c n lot q = Inr ps"
    using that
    by (auto simp: calculate_zodiacal_releasing_def Let_def split: sum.splits)
  ultimately show ?thesis
    using zr_walk_adjacent [of i f de cd s l] sign_steps [of x] by simp
qed

theorem releasing_walk_steps_witness:
  "calculate_zodiacal_releasing example_clock example_chart ''spirit'' (Some 100)
     = Inr (zr_walk Aries 100 0 Virgo 1)
   \<and> Suc 0 < length (zr_walk Aries 100 0 Virgo 1)
   \<and> end_days (zr_walk Aries 100 0 Virgo 1 ! 0) > 100
   \<and> zr_level (zr_walk Aries 100 0 Virgo 1 ! Suc 0) = 2
   \<and> zr_sign (zr_walk Aries 100 0 Virgo 1 ! 0) = Virgo
   \<and> zr_sign (zr_walk Aries 100 0 Virgo 1 ! Suc 0) = Leo
   \<and> get_next_zr_sign Virgo = Leo
   \<and> Suc 3 < length (zr_walk Aries 100 0 Virgo 1)
   \<and> \<not> end_days (zr_walk Aries 100 0 Virgo 1 ! 3) > 100
   \<and> zr_level (zr_walk Aries 100 0 Virgo 1 ! Suc 3) = 4
   \<and> zr_sign (zr_walk Aries 100 0 Virgo 1 ! 3) = Gemini
   \<and> zr_sign (zr_walk Aries 100 0 Virgo 1 ! Suc 3) = Cancer"
  using releasing_walk_steps [of 0 Aries 100 0 Virgo 1 example_clock example_chart
      "''spirit''" "Some 100" "zr_walk Aries 100 0 Virgo 1" Virgo]
    releasing_walk_steps [of 3 Aries 100 0 Virgo 1 example_clock example_chart
      "''spirit''" "Some 100" "zr_walk Aries 100 0 Virgo 1" Gemini]
    example_releasing
  by (simp add: zr_walk_example)

section \<open>Firdaria\<close>

lemma subperiod_planets_length: "length (subperiod_planets m) = 7"
  by (simp add: subperiod_planets_def firdaria_planets_def)

lemma firdaria_fraction_index:
  fixes y :: real and total :: int
  assumes "0 < total" "0 \<le> y" "y < of_int total"
  shows "0 \<le> \<lfloor>y / of_int total * 7\<rfloor>" and "\<lfloor>y / of_int total * 7\<rfloor> \<le> 6"
proof -
  from assms have pos: "(0 :: real) < of_int total" by simp
  from assms pos have "0 \<le> y / of_int total * 7" by simp
  then show "0 \<le> \<lfloor>y / of_int total * 7\<rfloor>" by simp
  from assms pos have "y / of_int total * 7 < 7" by (simp add: field_simps)
  then have "\<lfloor>y / of_int total * 7\<rfloor> < 7" by (simp only: floor_less_iff of_int_numeral)
  then show "\<lfloor>y / of_int total * 7\<rfloor> \<le> 6" by simp
qed

lemma firdaria_subperiod_value:
  fixes y :: real and total :: int
  assumes "0 < total" "0 \<le> y" "y < of_int total"
  shows "calculate_firdaria_subperiod m total y =
           Inr (Some \<lparr>sub_ruler = subperiod_planets m ! nat \<lfloor>y / of_int total * 7\<rfloor>,
                      sub_years = of_int total / 7,
                      sub_position = \<lfloor>y / of_int total * 7\<rfloor> + 1\<rparr>)"
proof -
  from assms have pos: "(0 :: real) < of_int total" by simp
  have quot: "y / (of_int total / 7) = y / of_int total * 7" by simp
  from assms pos have nonneg: "0 \<le> y / of_int total * 7" by simp
  have idx: "py_int (y / (of_int total / 7)) = \<lfloor>y / of_int total * 7\<rfloor>"
    using nonneg by (simp add: py_int_def)
  note b = firdaria_fraction_index [OF assms]
  from b have nth: "py_nth (subperiod_planets m) \<lfloor>y / of_int total * 7\<rfloor>
      = Inr (subperiod_planets m ! nat \<lfloor>y / of_int total * 7\<rfloor>)"
    by (simp add: py_nth_def subperiod_planets_length)
  from pos have nz: "(of_int total :: real) / 7 \<noteq> 0" by simp
  show ?thesis
    unfolding calculate_firdaria_subperiod_def Let_def idx
    using nz b nth by (simp add: subperiod_planets_length)
qed

lemma firdaria_scan_result:
  assumes "firdaria_scan sq ye cy rest = Inr (Some r)"
    and "\<forall>p \<in> set rest. 0 < snd p"
  shows "(major_period r, period_years r) \<in> set rest
     \<and> 0 \<le> years_in_period r \<and> years_in_period r < of_int (period_years r)
     \<and> years_remaining r = of_int (period_years r) - years_in_period r
     \<and> sub_period r = Some \<lparr>sub_ruler = subperiod_planets (major_period r)
                                 ! nat \<lfloor>years_in_period r / of_int (period_years r) * 7\<rfloor>,
                              sub_years = of_int (period_years r) / 7,
                              sub_position =
                                \<lfloor>years_in_period r / of_int (period_years r) * 7\<rfloor> + 1\<rparr>"
  using assms
proof (induction rest arbitrary: cy)
  case Nil
  then show ?case by simp
next
  case (Cons a rest)
  obtain pl yrs where a: "a = (pl, yrs)" by (cases a)
  from Cons.prems(2) a have ypos: "0 < yrs" by simp
  show ?case
  proof (cases "of_int cy \<le> ye \<and> ye < of_int cy + of_int yrs")
    case True
    then have bounds: "0 \<le> ye - of_int cy" "ye - of_int cy < of_int yrs" by simp_all
    from Cons.prems(1) True show ?thesis
      unfolding a using bounds
      by (simp add: firdaria_subperiod_value [OF ypos bounds] Let_def)
        (auto simp: Let_def)
  next
    case False
    with Cons.prems(1) have "firdaria_scan sq ye (cy + yrs) rest = Inr (Some r)"
      by (simp add: a)
    from Cons.IH [OF this] Cons.prems(2) show ?thesis by simp
  qed
qed


lemma firdaria_sequence_pos: "\<forall>p \<in> set (firdaria_sequence b). 0 < snd p"
  by (simp add: firdaria_sequence_def)



lemma calculate_firdaria_result:
  assumes "calculate_firdaria c n d = Inr (Some r)"
  shows "0 \<le> years_in_period r \<and> years_in_period r < of_int (period_years r)
     \<and> 0 \<le> \<lfloor>years_in_period r / of_int (period_years r) * 7\<rfloor>
     \<and> \<lfloor>years_in_period r / of_int (period_years r) * 7\<rfloor> \<le> 6
     \<and> sub_period r = Some \<lparr>sub_ruler = subperiod_planets (major_period r)
                                 ! nat \<lfloor>years_in_period r / of_int (period_years r) * 7\<rfloor>,
                              sub_years = of_int (period_years r) / 7,
                              sub_position =
                                \<lfloor>years_in_period r / of_int (period_years r) * 7\<rfloor> + 1\<rparr>"
proof -
  from assms obtain ye b where
    scan: "firdaria_scan (firdaria_sequence b) ye 0 (firdaria_sequence b) = Inr (Some r)"
    by (simp add: calculate_firdaria_def Let_def)
  note res = firdaria_scan_result [OF scan firdaria_sequence_pos]
  then have "(major_period r, period_years r) \<in> set (firdaria_sequence b)" by simp
  with firdaria_sequence_pos [of b] have pos: "0 < period_years r" by fastforce
  from res have lo: "0 \<le> years_in_period r"
    and hi: "years_in_period r < of_int (period_years r)" by simp_all
  from firdaria_fraction_index [OF pos lo hi] res show ?thesis by simp
qed

lemma example_firdaria:
  "calculate_firdaria example_clock example_chart (Some 4566) =
     Inr (Some \<lparr>major_period = Venus, years_in_period = 1218 / 487,
                years_remaining = 2678 / 487,
                sub_period = Some \<lparr>sub_ruler = Mercury, sub_years = 8 / 7, sub_position = 3\<rparr>,
                period_years = 8, fird_sequence = firdaria_sequence True\<rparr>)"
  by (simp add: calculate_firdaria_def firdaria_is_day_birth_def example_chart_def
      firdaria_sequence_def calculate_firdaria_subperiod_def subperiod_planets_def
      firdaria_planets_def py_int_def py_nth_def Let_def)

subsection \<open>Sub-periods\<close>




section \<open>Vimshottari Dasha\<close>

lemma dasha_sequence_nth:
  assumes "i < 9"
  shows "fst (dasha_sequence ! i) \<in> set antardasha_base" and "0 < snd (dasha_sequence ! i)"
proof -
  have all: "\<forall>p \<in> set dasha_sequence. fst p \<in> set antardasha_base \<and> 0 < snd p"
    by (simp add: dasha_sequence_def antardasha_base_def)
  from assms have "dasha_sequence ! i \<in> set dasha_sequence"
    by (intro nth_mem) (simp add: dasha_sequence_def)
  with all show "fst (dasha_sequence ! i) \<in> set antardasha_base"
    and "0 < snd (dasha_sequence ! i)" by blast+
qed

lemma subsequent_dashas_stop:
  "\<not> e < h \<Longrightarrow> subsequent_dashas h i e = Inr []"
  by (subst subsequent_dashas.simps) simp

lemma subsequent_dashas_step:
  "e < h \<Longrightarrow> i < 9 \<Longrightarrow>
   subsequent_dashas h i e =
     (case subsequent_dashas h ((i + 1) mod 9)
             (e + of_int (snd (dasha_sequence ! i)) * 365.25) of
        Inl x \<Rightarrow> Inl x
      | Inr ds \<Rightarrow>
          Inr (\<lparr>mahadasha = fst (dasha_sequence ! i), dasha_start = e,
                dasha_end = e + of_int (snd (dasha_sequence ! i)) * 365.25,
                dasha_yrs = of_int (snd (dasha_sequence ! i))\<rparr> # ds))"
  by (subst subsequent_dashas.simps) (simp add: dasha_sequence_def)

lemma subsequent_dashas_ok:
  "i < 9 \<Longrightarrow>
   \<exists>ds. subsequent_dashas h i e = Inr ds
      \<and> (\<forall>d \<in> set ds. mahadasha d \<in> set antardasha_base \<and> 0 < dasha_yrs d
            \<and> dasha_end d = dasha_start d + dasha_yrs d * 365.25
            \<and> e \<le> dasha_start d)"
proof (induction h i e rule: subsequent_dashas.induct)
  case (1 h i e)
  show ?case
  proof (cases "e < h")
    case False
    then show ?thesis by (simp add: subsequent_dashas_stop)
  next
    case True
    from "1.prems" have len: "i < length dasha_sequence"
      by (simp add: dasha_sequence_def)
    have "(i + 1) mod 9 < 9" by simp
    from "1.IH" [OF True len this] obtain ds where
      rec: "subsequent_dashas h ((i + 1) mod 9)
              (e + of_int (snd (dasha_sequence ! i)) * 365.25) = Inr ds"
      and wf: "\<forall>d \<in> set ds. mahadasha d \<in> set antardasha_base \<and> 0 < dasha_yrs d
                 \<and> dasha_end d = dasha_start d + dasha_yrs d * 365.25
                 \<and> e + of_int (snd (dasha_sequence ! i)) * 365.25 \<le> dasha_start d"
      by blast
    from dasha_sequence_nth(2) [OF "1.prems"]
    have "(0 :: real) \<le> of_int (snd (dasha_sequence ! i)) * 365.25" by simp
    with wf have later: "\<forall>d \<in> set ds. e \<le> dasha_start d" by force
    from dasha_sequence_nth [OF "1.prems"] wf later show ?thesis
      unfolding subsequent_dashas_step [OF True "1.prems"] rec by simp
  qed
qed


lemma py_fmod_range:
  assumes "0 < m"
  shows "0 \<le> py_fmod x m" and "py_fmod x m < m"
proof -
  have "of_int \<lfloor>x / m\<rfloor> \<le> x / m" by (rule of_int_floor_le)
  with assms have "of_int \<lfloor>x / m\<rfloor> * m \<le> x"
    by (simp only: pos_le_divide_eq)
  then show "0 \<le> py_fmod x m" by (simp add: py_fmod_def mult.commute)
  have "x / m < of_int \<lfloor>x / m\<rfloor> + 1" by linarith
  with assms have "x < (of_int \<lfloor>x / m\<rfloor> + 1) * m"
    by (simp only: pos_divide_less_eq)
  then show "py_fmod x m < m" by (simp add: py_fmod_def algebra_simps)
qed


lemma dasha_sequence_index:
  "r \<in> set antardasha_base \<Longrightarrow>
   \<exists>i. list_index (map fst dasha_sequence) r = Inr i \<and> i < 9
      \<and> fst (dasha_sequence ! i) = r"
  by (auto simp: antardasha_base_def dasha_sequence_def)

lemma py_nth_mem: "py_nth xs i = Inr x \<Longrightarrow> x \<in> set xs"
  by (auto simp: py_nth_def split: if_splits)

lemma first_dasha_props:
  assumes "first_dasha n = Inr (i, d)"
  shows "i < 9 \<and> py_nth nakshatra_rulers (nakshatra n) = Inr (mahadasha d)
     \<and> mahadasha d = fst (dasha_sequence ! i)
     \<and> mahadasha d \<in> set antardasha_base
     \<and> dasha_yrs d
         = of_int (snd (dasha_sequence ! i)) * (1 - nakshatra_degree n / nakshatra_span)
     \<and> 0 < dasha_yrs d
     \<and> dasha_start d = birth_datetime n
     \<and> dasha_end d = dasha_start d + dasha_yrs d * 365.25"
proof -
  from assms obtain r where nth: "py_nth nakshatra_rulers (nakshatra n) = Inr r"
    by (auto simp: first_dasha_def split: sum.splits)
  have "set nakshatra_rulers = set antardasha_base"
    by (auto simp: nakshatra_rulers_def antardasha_base_def numeral_3_eq_3)
  with py_nth_mem [OF nth] have base: "r \<in> set antardasha_base" by simp
  from dasha_sequence_index [OF base] obtain j where
    idx: "list_index (map fst dasha_sequence) r = Inr j" and j9: "j < 9"
    and fst: "fst (dasha_sequence ! j) = r" by blast
  have span: "0 < nakshatra_span" by (simp add: nakshatra_span_def)
  from py_fmod_range [OF span, of "moon_sidereal n"]
  have "nakshatra_degree n / nakshatra_span < 1"
    using span by (simp add: nakshatra_degree_def)
  then have "0 < 1 - nakshatra_degree n / nakshatra_span" by simp
  moreover from dasha_sequence_nth(2) [OF j9]
  have "(0 :: real) < of_int (snd (dasha_sequence ! j))" by simp
  ultimately have pos:
    "0 < of_int (snd (dasha_sequence ! j)) * (1 - nakshatra_degree n / nakshatra_span)"
    by (rule mult_pos_pos [rotated])
  from assms have "i = j"
    and "d = \<lparr>mahadasha = r, dasha_start = birth_datetime n,
              dasha_end = birth_datetime n
                + of_int (snd (dasha_sequence ! j))
                  * (1 - nakshatra_degree n / nakshatra_span) * 365.25,
              dasha_yrs = of_int (snd (dasha_sequence ! j))
                  * (1 - nakshatra_degree n / nakshatra_span)\<rparr>"
    by (auto simp: first_dasha_def nth idx Let_def)
  with j9 fst base pos nth show ?thesis by simp
qed


lemma dasha_years_base:
  "p \<in> set antardasha_base \<Longrightarrow> \<exists>y. dasha_years p = Some y \<and> 0 < y"
  by (auto simp: antardasha_base_def dasha_years_def)

lemma antardasha_loop_props:
  assumes "set ps \<subseteq> set antardasha_base" and "0 < dasha_yrs m"
    and "cs + of_int (\<Sum>p\<leftarrow>ps. the (dasha_years p)) * dasha_yrs m / 120 * 365.25
           \<le> dasha_end m"
  shows "\<exists>as. antardasha_loop m cs ps = Inr as \<and> map planet as = ps
      \<and> (\<forall>a \<in> set as. 0 < antar_years a
            \<and> antar_end a = antar_start a + antar_years a * 365.25)
      \<and> sum_list (map antar_years as)
          = of_int (\<Sum>p\<leftarrow>ps. the (dasha_years p)) * dasha_yrs m / 120
      \<and> (as \<noteq> [] \<longrightarrow> antar_start (hd as) = cs)
      \<and> (\<forall>i. Suc i < length as \<longrightarrow> antar_end (as ! i) = antar_start (as ! Suc i))
      \<and> (as \<noteq> [] \<longrightarrow> antar_end (last as) = cs + sum_list (map antar_years as) * 365.25)"
  using assms
proof (induction ps arbitrary: cs)
  case Nil
  then show ?case by simp
next
  case (Cons p rest)
  from Cons.prems(1) have pb: "p \<in> set antardasha_base"
    and rb: "set rest \<subseteq> set antardasha_base" by simp_all
  from dasha_years_base [OF pb] obtain y where y: "dasha_years p = Some y" and ypos: "0 < y"
    by blast
  define S where "S = (\<Sum>q\<leftarrow>rest. the (dasha_years q))"
  have Snn: "0 \<le> S"
    unfolding S_def
  proof (rule sum_list_nonneg)
    fix x assume "x \<in> set (map (\<lambda>q. the (dasha_years q)) rest)"
    then obtain q where "q \<in> set rest" and x: "x = the (dasha_years q)" by auto
    with rb have "q \<in> set antardasha_base" by blast
    from dasha_years_base [OF this] x show "0 \<le> x" by auto
  qed
  define years where "years = (of_int y * dasha_yrs m) / 120"
  define endt where "endt = cs + years * 365.25"
  have ypos': "0 < years"
    using ypos Cons.prems(2) by (simp add: years_def)
  have total: "cs + of_int (y + S) * dasha_yrs m / 120 * 365.25 \<le> dasha_end m"
    using Cons.prems(3) by (simp add: y S_def)
  have split: "cs + of_int (y + S) * dasha_yrs m / 120 * 365.25
      = endt + of_int S * dasha_yrs m / 120 * 365.25"
    by (simp add: endt_def years_def algebra_simps)
  have "0 \<le> of_int S * dasha_yrs m / 120 * 365.25"
    using Snn Cons.prems(2) by simp
  with total split have no_break: "\<not> endt > dasha_end m" by linarith
  from total split have "endt + of_int (\<Sum>q\<leftarrow>rest. the (dasha_years q)) * dasha_yrs m / 120
      * 365.25 \<le> dasha_end m"
    by (simp add: S_def)
  from Cons.IH [OF rb Cons.prems(2) this] obtain as' where
    loop: "antardasha_loop m endt rest = Inr as'" and pl: "map planet as' = rest"
    and each: "\<forall>a \<in> set as'. 0 < antar_years a
                 \<and> antar_end a = antar_start a + antar_years a * 365.25"
    and sum: "sum_list (map antar_years as') = of_int S * dasha_yrs m / 120"
    and first: "as' \<noteq> [] \<longrightarrow> antar_start (hd as') = endt"
    and chain: "\<forall>i. Suc i < length as' \<longrightarrow> antar_end (as' ! i) = antar_start (as' ! Suc i)"
    and final: "as' \<noteq> [] \<longrightarrow> antar_end (last as')
                  = endt + sum_list (map antar_years as') * 365.25"
    unfolding S_def by blast
  define a where "a = \<lparr>planet = p, antar_start = cs, antar_end = endt, antar_years = years\<rparr>"
  have endt': "cs + years * 1461 / 4 = endt"
    by (simp add: endt_def)
  have years': "real_of_int y * dasha_yrs m / 120 = years"
    by (simp add: years_def)
  have run: "antardasha_loop m cs (p # rest) = Inr (a # as')"
    using no_break loop
    by (simp add: y Let_def a_def years' endt')
  have chain': "\<forall>i. Suc i < length (a # as') \<longrightarrow>
      antar_end ((a # as') ! i) = antar_start ((a # as') ! Suc i)"
  proof (intro allI impI)
    fix i assume i: "Suc i < length (a # as')"
    show "antar_end ((a # as') ! i) = antar_start ((a # as') ! Suc i)"
    proof (cases i)
      case 0
      with i have "as' \<noteq> []" by auto
      with first have "antar_start (as' ! 0) = endt" by (simp add: hd_conv_nth)
      with 0 show ?thesis by (simp add: a_def)
    next
      case (Suc j)
      with i chain show ?thesis by simp
    qed
  qed
  have sum': "sum_list (map antar_years (a # as'))
      = of_int (\<Sum>q\<leftarrow>p # rest. the (dasha_years q)) * dasha_yrs m / 120"
    using sum by (simp add: a_def years_def y S_def [symmetric] algebra_simps)
  have final': "antar_end (last (a # as'))
      = cs + sum_list (map antar_years (a # as')) * 365.25"
    using final by (cases "as' = []") (simp_all add: a_def endt_def algebra_simps)
  have each': "\<forall>b \<in> set (a # as'). 0 < antar_years b
                 \<and> antar_end b = antar_start b + antar_years b * 365.25"
    using each ypos' by (simp add: a_def endt_def)
  have pl': "map planet (a # as') = p # rest" and first': "antar_start (hd (a # as')) = cs"
    using pl by (simp_all add: a_def)
  from run pl' each' sum' first' chain' final' show ?case
    by (intro exI [of _ "a # as'"] conjI impI) assumption+
qed


lemma list_index_props:
  "x \<in> set xs \<Longrightarrow> \<exists>i. list_index xs x = Inr i \<and> i < length xs \<and> xs ! i = x"
  by (induction xs) auto

lemma list_index_Inr:
  "list_index xs x = Inr i \<Longrightarrow> i < length xs \<and> xs ! i = x"
  by (induction xs arbitrary: i) (auto split: if_splits sum.splits)

lemma sum_list_rotated:
  fixes f :: "'a \<Rightarrow> int"
  shows "sum_list (map f (drop i xs @ take i xs)) = sum_list (map f xs)"
proof -
  have "sum_list (map f xs) = sum_list (map f (take i xs @ drop i xs))" by simp
  also have "\<dots> = sum_list (map f (drop i xs @ take i xs))"
    unfolding map_append sum_list_append by (rule add.commute)
  finally show ?thesis ..
qed

lemma antardashas_of_props:
  assumes "mahadasha m \<in> set antardasha_base" and "0 < dasha_yrs m"
    and "dasha_end m = dasha_start m + dasha_yrs m * 365.25"
  shows "\<exists>as. antardashas_of m = Inr as \<and> length as = 9
      \<and> planet (as ! 0) = mahadasha m
      \<and> (\<forall>a \<in> set as. 0 < antar_years a
            \<and> antar_end a = antar_start a + antar_years a * 365.25)
      \<and> sum_list (map antar_years as) = dasha_yrs m
      \<and> antar_start (as ! 0) = dasha_start m
      \<and> (\<forall>i. Suc i < length as \<longrightarrow> antar_end (as ! i) = antar_start (as ! Suc i))
      \<and> antar_end (as ! 8) = dasha_end m"
proof -
  from list_index_props [OF assms(1)] obtain i where
    idx: "list_index antardasha_base (mahadasha m) = Inr i"
    and i: "i < length antardasha_base" and nth: "antardasha_base ! i = mahadasha m"
    by blast
  define ps where "ps = drop i antardasha_base @ take i antardasha_base"
  have len: "length antardasha_base = 9" by (simp add: antardasha_base_def)
  have sub: "set ps \<subseteq> set antardasha_base"
    unfolding ps_def by (auto dest: in_set_dropD in_set_takeD)
  have "(\<Sum>p\<leftarrow>antardasha_base. the (dasha_years p)) = 120"
    by (simp add: antardasha_base_def dasha_years_def)
  then have total: "(\<Sum>p\<leftarrow>ps. the (dasha_years p)) = 120"
    unfolding ps_def by (simp only: sum_list_rotated)
  have bound: "dasha_start m + of_int (\<Sum>p\<leftarrow>ps. the (dasha_years p)) * dasha_yrs m / 120
      * 365.25 \<le> dasha_end m"
    unfolding total assms(3) by simp
  from antardasha_loop_props [OF sub assms(2) bound] obtain as where
    loop: "antardasha_loop m (dasha_start m) ps = Inr as" and pl: "map planet as = ps"
    and each: "\<forall>a \<in> set as. 0 < antar_years a
                 \<and> antar_end a = antar_start a + antar_years a * 365.25"
    and sum: "sum_list (map antar_years as)
                = of_int (\<Sum>p\<leftarrow>ps. the (dasha_years p)) * dasha_yrs m / 120"
    and first: "as \<noteq> [] \<longrightarrow> antar_start (hd as) = dasha_start m"
    and chain: "\<forall>i. Suc i < length as \<longrightarrow> antar_end (as ! i) = antar_start (as ! Suc i)"
    and final: "as \<noteq> [] \<longrightarrow> antar_end (last as)
                  = dasha_start m + sum_list (map antar_years as) * 365.25"
    by blast
  have "length as = length ps" using pl by (metis length_map)
  with len i have l9: "length as = 9" by (simp add: ps_def)
  then have ne: "as \<noteq> []" by auto
  have "ps ! 0 = antardasha_base ! i"
    using i by (simp add: ps_def nth_append)
  with pl l9 have p0: "planet (as ! 0) = mahadasha m"
    by (metis nth nth_map zero_less_numeral)
  have sum': "sum_list (map antar_years as) = dasha_yrs m"
    unfolding sum total by simp
  from ne first have s0: "antar_start (as ! 0) = dasha_start m"
    by (simp add: hd_conv_nth)
  from ne final l9 have e8: "antar_end (as ! 8) = dasha_end m"
    unfolding sum' assms(3) by (simp add: last_conv_nth)
  have run: "antardashas_of m = Inr as"
    by (simp add: antardashas_of_def idx loop [unfolded ps_def])
  from run l9 p0 each sum' s0 chain e8 show ?thesis
    by (intro exI [of _ as] conjI) assumption+
qed

lemma chain_ordered:
  assumes chain: "\<forall>i. Suc i < length as \<longrightarrow> antar_end (as ! i) = antar_start (as ! Suc i)"
    and pos: "\<forall>a \<in> set as. antar_start a < antar_end a"
  shows "i < j \<Longrightarrow> j < length as \<Longrightarrow> antar_end (as ! i) \<le> antar_start (as ! j)"
proof (induction j)
  case 0
  then show ?case by simp
next
  case (Suc j)
  show ?case
  proof (cases "i = j")
    case True
    with chain Suc.prems show ?thesis by simp
  next
    case False
    with Suc.prems have "i < j" "j < length as" by simp_all
    from Suc.IH [OF this] have "antar_end (as ! i) \<le> antar_start (as ! j)" .
    also from pos \<open>j < length as\<close> have "\<dots> < antar_end (as ! j)" by simp
    also from chain Suc.prems have "\<dots> = antar_start (as ! Suc j)" by simp
    finally show ?thesis by simp
  qed
qed

lemma find_Some_mem: "find P xs = Some x \<Longrightarrow> x \<in> set xs \<and> P x"
  by (induction xs) (auto split: if_splits)


lemma vimshottari_before_birth:
  assumes fd: "first_dasha n = Inr (i, d)"
    and t: "t = (case arg of None \<Rightarrow> now c | Some x \<Rightarrow> of_int x)"
    and unborn: "t < birth_datetime n"
  shows "calculate_vimshottari_dasha c n arg = Inl TypeError"
proof -
  note fp = first_dasha_props [OF fd]
  have "(i + 1) mod 9 < 9" by simp
  from subsequent_dashas_ok [OF this, of "t + 365 * 10" "dasha_end d"] obtain ds where
    rec: "subsequent_dashas (t + 365 * 10) ((i + 1) mod 9) (dasha_end d) = Inr ds"
    and wf: "\<forall>x \<in> set ds. dasha_end d \<le> dasha_start x"
    by blast
  from fp unborn have first: "t < dasha_start d" by simp
  from fp have "dasha_start d \<le> dasha_end d" by simp
  with first have "t < dasha_end d" by simp
  with wf have "\<forall>x \<in> set ds. t < dasha_start x" by force
  with first have "\<forall>x \<in> set (d # ds). \<not> (dasha_start x \<le> t \<and> t < dasha_end x)"
    by auto
  then have none: "find (\<lambda>x. dasha_start x \<le> t \<and> t < dasha_end x) (d # ds) = None"
    by (simp only: find_None_iff) blast
  show ?thesis
    using rec none
    by (simp add: calculate_vimshottari_dasha_def fd t [symmetric] Let_def
        calculate_antardasha_def)
qed

lemma vimshottari_dashas_wf:
  assumes "calculate_vimshottari_dasha c n arg = Inr v"
  shows "current_mahadasha v \<in> set (all_dashas v)
     \<and> (\<forall>m \<in> set (all_dashas v). mahadasha m \<in> set antardasha_base \<and> 0 < dasha_yrs m
           \<and> dasha_end m = dasha_start m + dasha_yrs m * 365.25)"
proof -
  from assms obtain i d where fd: "first_dasha n = Inr (i, d)"
    by (auto simp: calculate_vimshottari_dasha_def Let_def split: sum.splits)
  note fp = first_dasha_props [OF fd]
  define t where "t = (case arg of None \<Rightarrow> now c | Some x \<Rightarrow> of_int x)"
  have "(i + 1) mod 9 < 9" by simp
  from subsequent_dashas_ok [OF this, of "t + 365 * 10" "dasha_end d"] obtain ds where
    rec: "subsequent_dashas (t + 365 * 10) ((i + 1) mod 9) (dasha_end d) = Inr ds"
    and wf: "\<forall>x \<in> set ds. mahadasha x \<in> set antardasha_base \<and> 0 < dasha_yrs x
               \<and> dasha_end x = dasha_start x + dasha_yrs x * 365.25"
    by blast
  from assms rec have all: "all_dashas v = d # ds"
    and cur: "find (\<lambda>x. dasha_start x \<le> t \<and> t < dasha_end x) (d # ds)
                = Some (current_mahadasha v)"
    by (auto simp: calculate_vimshottari_dasha_def fd t_def [symmetric] Let_def
        split: sum.splits option.splits)
  from find_Some_mem [OF cur] have "current_mahadasha v \<in> set (d # ds)" ..
  with wf fp all show ?thesis by auto
qed

lemma example_first_dasha:
  "first_dasha example_chart =
     Inr (5, \<lparr>mahadasha = Rahu, dasha_start = 0, dasha_end = 27086926851 / 13333333,
               dasha_yrs = 74159964 / 13333333\<rparr>)"
  by (simp add: first_dasha_def nakshatra_def nakshatra_degree_def moon_sidereal_def
      ayanamsa_def nakshatra_span_def nakshatra_rulers_def dasha_sequence_def example_chart_def
      py_nth_def py_int_def py_fmod_def Let_def numeral_3_eq_3)

lemma example_subsequent:
  "subsequent_dashas 3750 6 (27086926851 / 13333333) =
     Inr [\<lparr>mahadasha = Jupiter, dasha_start = 27086926851 / 13333333,
           dasha_end = 105006924903 / 13333333, dasha_yrs = 16\<rparr>]"
  by (simp add: subsequent_dashas.simps dasha_sequence_def)

lemma example_antardashas:
  "antardashas_of \<lparr>mahadasha = Rahu, dasha_start = 0, dasha_end = 27086926851 / 13333333,
                   dasha_yrs = 74159964 / 13333333\<rparr> =
     Inr [\<lparr>planet = Rahu, antar_start = 0, antar_end = 81260780553 / 266666660,
            antar_years = 55619973 / 66666665\<rparr>,
          \<lparr>planet = Jupiter, antar_start = 81260780553 / 266666660,
            antar_end = 153492585489 / 266666660, antar_years = 49439976 / 66666665\<rparr>,
          \<lparr>planet = Saturn, antar_start = 153492585489 / 266666660,
            antar_end = 478535707701 / 533333320, antar_years = 117419943 / 133333330\<rparr>,
          \<lparr>planet = Mercury, antar_start = 478535707701 / 533333320,
            antar_end = 63202829319 / 53333332, antar_years = 105059949 / 133333330\<rparr>,
          \<lparr>planet = Ketu, antar_start = 63202829319 / 53333332,
            antar_end = 695231122509 / 533333320, antar_years = 43259979 / 133333330\<rparr>,
          \<lparr>planet = Venus, antar_start = 695231122509 / 533333320,
            antar_end = 875810634849 / 533333320, antar_years = 12359994 / 13333333\<rparr>,
          \<lparr>planet = Sun, antar_start = 875810634849 / 533333320,
            antar_end = 929984488551 / 533333320, antar_years = 18539991 / 66666665\<rparr>,
          \<lparr>planet = Moon, antar_start = 929984488551 / 533333320,
            antar_end = 1020274244721 / 533333320, antar_years = 6179997 / 13333333\<rparr>,
          \<lparr>planet = Mars, antar_start = 1020274244721 / 533333320,
            antar_end = 27086926851 / 13333333, antar_years = 43259979 / 133333330\<rparr>]"
  by (simp add: antardashas_of_def antardasha_base_def dasha_years_def Let_def)

lemma example_vimshottari:
  "calculate_vimshottari_dasha c example_chart (Some 100) =
     Inr \<lparr>current_mahadasha =
            \<lparr>mahadasha = Rahu, dasha_start = 0, dasha_end = 27086926851 / 13333333,
              dasha_yrs = 74159964 / 13333333\<rparr>,
          current_antardasha =
            Some \<lparr>planet = Rahu, antar_start = 0, antar_end = 81260780553 / 266666660,
                   antar_years = 55619973 / 66666665\<rparr>,
          next_antardashas =
            [\<lparr>planet = Jupiter, antar_start = 81260780553 / 266666660,
               antar_end = 153492585489 / 266666660, antar_years = 49439976 / 66666665\<rparr>,
             \<lparr>planet = Saturn, antar_start = 153492585489 / 266666660,
               antar_end = 478535707701 / 533333320, antar_years = 117419943 / 133333330\<rparr>,
             \<lparr>planet = Mercury, antar_start = 478535707701 / 533333320,
               antar_end = 63202829319 / 53333332, antar_years = 105059949 / 133333330\<rparr>],
          all_dashas =
            [\<lparr>mahadasha = Rahu, dasha_start = 0, dasha_end = 27086926851 / 13333333,
               dasha_yrs = 74159964 / 13333333\<rparr>,
             \<lparr>mahadasha = Jupiter, dasha_start = 27086926851 / 13333333,
               dasha_end = 105006924903 / 13333333, dasha_yrs = 16\<rparr>]\<rparr>"
  by (simp add: calculate_vimshottari_dasha_def example_first_dasha example_subsequent
      calculate_antardasha_def example_antardashas Let_def)







subsection \<open>The first Mahadasha\<close>

text \<open>Scenario A of the specification: the Moon at nakshatra index 3 with 40 per cent of
  the band elapsed (sidereal longitude \<open>3.4 \<times> 13.333333\<close>, tropical longitude 69.4533322);
  the band's ruler is the Moon, whose period is 10 years, and 6 years remain.\<close>

lemma scenario_a:
  "first_dasha (example_chart\<lparr>longitude := (longitude example_chart)(Moon := 69.4533322)\<rparr>) =
     Inr (3, \<lparr>mahadasha = Moon, dasha_start = 0, dasha_end = 6 * 365.25, dasha_yrs = 6\<rparr>)"
  by (simp add: first_dasha_def nakshatra_def nakshatra_degree_def moon_sidereal_def
      ayanamsa_def nakshatra_span_def nakshatra_rulers_def dasha_sequence_def example_chart_def
      py_nth_def py_int_def py_fmod_def Let_def numeral_3_eq_3)

text \<open>
  Claim C7 at a natal Moon of tropical longitude 24.119995 degrees. The sidereal
  longitude is 359.999995, in \<open>[0, 360)\<close>; the literal 13.333333 makes 27 bands end at
  359.999991, so the nakshatra index is 27, one past the 27 entries of
  \<^verbatim>\<open>nakshatra_rulers\<close>, and no first Mahadasha is determined: the lookup raises
  \<^verbatim>\<open>IndexError\<close>. With bands of 360/27 degrees the index is 26, whose ruler is Mercury.
\<close>

theorem nakshatra_band_edge:
  "moon_sidereal (example_chart\<lparr>longitude := (longitude example_chart)(Moon := 24.119995)\<rparr>)
     = 359.999995
   \<and> nakshatra (example_chart\<lparr>longitude := (longitude example_chart)(Moon := 24.119995)\<rparr>)
     = 27
   \<and> length nakshatra_rulers = 27
   \<and> \<lfloor>(359.999995 :: real) / (360 / 27)\<rfloor> = 26
   \<and> nakshatra_rulers ! 26 = Mercury
   \<and> first_dasha (example_chart\<lparr>longitude := (longitude example_chart)(Moon := 24.119995)\<rparr>)
     = Inl IndexError
   \<and> calculate_vimshottari_dasha example_clock
       (example_chart\<lparr>longitude := (longitude example_chart)(Moon := 24.119995)\<rparr>) (Some 100)
     = Inl IndexError"
  by (simp add: calculate_vimshottari_dasha_def first_dasha_def nakshatra_def
      moon_sidereal_def ayanamsa_def nakshatra_span_def nakshatra_rulers_def example_chart_def
      py_nth_def py_int_def Let_def numeral_3_eq_3)

subsection \<open>Where resolution succeeds\<close>




subsection \<open>Sibling sub-periods\<close>

lemma firdaria_subperiod_interval:
  fixes y :: real and total :: int
  assumes "0 \<le> y" "y < of_int total"
  shows "of_int \<lfloor>y / of_int total * 7\<rfloor> * (of_int total / 7) \<le> y"
    and "y < of_int (\<lfloor>y / of_int total * 7\<rfloor> + 1) * (of_int total / 7)"
proof -
  from assms have pos: "(0 :: real) < of_int total / 7" by simp
  have eq: "y / of_int total * 7 = y / (of_int total / 7)" by simp
  have "of_int \<lfloor>y / (of_int total / 7)\<rfloor> \<le> y / (of_int total / 7)"
    by (rule of_int_floor_le)
  with pos show "of_int \<lfloor>y / of_int total * 7\<rfloor> * (of_int total / 7) \<le> y"
    unfolding eq by (simp only: pos_le_divide_eq)
  have "y / (of_int total / 7) < of_int (\<lfloor>y / (of_int total / 7)\<rfloor> + 1)"
    by linarith
  with pos show "y < of_int (\<lfloor>y / of_int total * 7\<rfloor> + 1) * (of_int total / 7)"
    unfolding eq by (simp only: pos_divide_less_eq)
qed

text \<open>
  Claim C6. For every Mahadasha that \<^verbatim>\<open>calculate_vimshottari_dasha\<close> generates (the
  current one among them), \<^verbatim>\<open>_calculate_antardasha\<close> builds 9 antardashas: the first
  starts at the Mahadasha's start, each one ends where the next starts, the last ends at
  the Mahadasha's end, every one has a positive duration and ends no later than any later
  one starts (no overlap), and the durations sum to the Mahadasha's duration, exactly in
  the arithmetic of real numbers and so within 1e-6 relative error. For every Firdaria
  major period that \<^verbatim>\<open>calculate_firdaria\<close> returns, the 7 sub-periods have the same
  duration, 7 times that duration is the major period's duration, and the reported
  sub-period of position \<open>k\<close> is the one whose interval, from \<open>k - 1\<close> to \<open>k\<close> durations
  into the major period (start inclusive, end exclusive), holds the query instant; these
  intervals for \<open>k\<close> from 1 to 7 are contiguous and do not overlap.
\<close>

theorem sibling_periods:
  "(calculate_vimshottari_dasha c n q = Inr v \<longrightarrow>
      current_mahadasha v \<in> set (all_dashas v))
   \<and> (calculate_vimshottari_dasha c n q = Inr v \<and> m \<in> set (all_dashas v) \<longrightarrow>
        (\<exists>as. antardashas_of m = Inr as \<and> length as = 9
           \<and> antar_start (as ! 0) = dasha_start m
           \<and> antar_end (as ! 8) = dasha_end m
           \<and> (\<forall>i. Suc i < 9 \<longrightarrow> antar_end (as ! i) = antar_start (as ! Suc i))
           \<and> (\<forall>i. i < 9 \<longrightarrow> antar_start (as ! i) < antar_end (as ! i)
                 \<and> antar_end (as ! i) - antar_start (as ! i)
                     = antar_years (as ! i) * 365.25)
           \<and> (\<forall>i j. i < j \<and> j < 9 \<longrightarrow> antar_end (as ! i) \<le> antar_start (as ! j))
           \<and> sum_list (map antar_years as) = dasha_yrs m
           \<and> \<bar>sum_list (map antar_years as) - dasha_yrs m\<bar> \<le> dasha_yrs m / 1000000))
   \<and> (calculate_firdaria c n q' = Inr (Some r) \<longrightarrow>
        (\<exists>sp. sub_period r = Some sp
           \<and> 7 * sub_years sp = of_int (period_years r)
           \<and> 1 \<le> sub_position sp \<and> sub_position sp \<le> 7
           \<and> of_int (sub_position sp - 1) * sub_years sp \<le> years_in_period r
           \<and> years_in_period r < of_int (sub_position sp) * sub_years sp))"
proof (intro conjI impI)
  assume "calculate_vimshottari_dasha c n q = Inr v"
  from vimshottari_dashas_wf [OF this]
  show "current_mahadasha v \<in> set (all_dashas v)" by simp
next
  assume "calculate_vimshottari_dasha c n q = Inr v \<and> m \<in> set (all_dashas v)"
  with vimshottari_dashas_wf [of c n q v]
  have "mahadasha m \<in> set antardasha_base" "0 < dasha_yrs m"
    "dasha_end m = dasha_start m + dasha_yrs m * 365.25" by auto
  from antardashas_of_props [OF this] obtain as where
    run: "antardashas_of m = Inr as" and len: "length as = 9"
    and each: "\<forall>a \<in> set as. 0 < antar_years a
                 \<and> antar_end a = antar_start a + antar_years a * 365.25"
    and sum: "sum_list (map antar_years as) = dasha_yrs m"
    and first: "antar_start (as ! 0) = dasha_start m"
    and chain: "\<forall>i. Suc i < length as \<longrightarrow> antar_end (as ! i) = antar_start (as ! Suc i)"
    and final: "antar_end (as ! 8) = dasha_end m"
    by blast
  from each have pos: "\<forall>a \<in> set as. antar_start a < antar_end a" by simp
  have spans: "\<forall>i. i < 9 \<longrightarrow> antar_start (as ! i) < antar_end (as ! i)
                 \<and> antar_end (as ! i) - antar_start (as ! i) = antar_years (as ! i) * 365.25"
  proof (intro allI impI)
    fix i :: nat assume "i < 9"
    with len have "as ! i \<in> set as" by simp
    with each show "antar_start (as ! i) < antar_end (as ! i)
        \<and> antar_end (as ! i) - antar_start (as ! i) = antar_years (as ! i) * 365.25"
      by simp
  qed
  have order: "\<forall>i j. i < j \<and> j < 9 \<longrightarrow> antar_end (as ! i) \<le> antar_start (as ! j)"
    using chain_ordered [OF chain pos] len by simp
  have chain9: "\<forall>i. Suc i < 9 \<longrightarrow> antar_end (as ! i) = antar_start (as ! Suc i)"
    using chain len by simp
  from \<open>0 < dasha_yrs m\<close> sum
  have tol: "\<bar>sum_list (map antar_years as) - dasha_yrs m\<bar> \<le> dasha_yrs m / 1000000"
    by simp
  from run len first final chain9 spans order sum tol
  show "\<exists>as. antardashas_of m = Inr as \<and> length as = 9
           \<and> antar_start (as ! 0) = dasha_start m
           \<and> antar_end (as ! 8) = dasha_end m
           \<and> (\<forall>i. Suc i < 9 \<longrightarrow> antar_end (as ! i) = antar_start (as ! Suc i))
           \<and> (\<forall>i. i < 9 \<longrightarrow> antar_start (as ! i) < antar_end (as ! i)
                 \<and> antar_end (as ! i) - antar_start (as ! i)
                     = antar_years (as ! i) * 365.25)
           \<and> (\<forall>i j. i < j \<and> j < 9 \<longrightarrow> antar_end (as ! i) \<le> antar_start (as ! j))
           \<and> sum_list (map antar_years as) = dasha_yrs m
           \<and> \<bar>sum_list (map antar_years as) - dasha_yrs m\<bar> \<le> dasha_yrs m / 1000000"
    by (intro exI [of _ as] conjI) assumption+
next
  assume "calculate_firdaria c n q' = Inr (Some r)"
  note res = calculate_firdaria_result [OF this]
  then have lo: "0 \<le> years_in_period r"
    and hi: "years_in_period r < of_int (period_years r)" by simp_all
  note iv = firdaria_subperiod_interval [OF lo hi]
  define k where "k = \<lfloor>years_in_period r / of_int (period_years r) * 7\<rfloor>"
  define sp where "sp = \<lparr>sub_ruler = subperiod_planets (major_period r) ! nat k,
      sub_years = of_int (period_years r) / 7, sub_position = k + 1\<rparr>"
  from res have 1: "sub_period r = Some sp" and k: "0 \<le> k" "k \<le> 6"
    by (simp_all add: sp_def k_def)
  have 2: "7 * sub_years sp = of_int (period_years r)" by (simp add: sp_def)
  from k have 3: "1 \<le> sub_position sp" and 4: "sub_position sp \<le> 7"
    by (simp_all add: sp_def)
  from iv(1) have 5: "of_int (sub_position sp - 1) * sub_years sp \<le> years_in_period r"
    by (simp add: sp_def k_def)
  from iv(2) have 6: "years_in_period r < of_int (sub_position sp) * sub_years sp"
    unfolding k_def [symmetric] by (simp add: sp_def)
  from 1 2 3 4 5 6
  show "\<exists>sp. sub_period r = Some sp
           \<and> 7 * sub_years sp = of_int (period_years r)
           \<and> 1 \<le> sub_position sp \<and> sub_position sp \<le> 7
           \<and> of_int (sub_position sp - 1) * sub_years sp \<le> years_in_period r
           \<and> years_in_period r < of_int (sub_position sp) * sub_years sp"
    by (intro exI [of _ sp] conjI) assumption+
qed

theorem sibling_periods_witness:
  "(\<exists>v. calculate_vimshottari_dasha example_clock example_chart (Some 100) = Inr v
      \<and> current_mahadasha v \<in> set (all_dashas v)
      \<and> (\<exists>as. antardashas_of (current_mahadasha v) = Inr as \<and> length as = 9
            \<and> antar_end (as ! 8) = dasha_end (current_mahadasha v)
            \<and> sum_list (map antar_years as) = dasha_yrs (current_mahadasha v)))
   \<and> (\<exists>r sp. calculate_firdaria example_clock example_chart (Some 4566) = Inr (Some r)
        \<and> sub_period r = Some sp \<and> 7 * sub_years sp = 8 \<and> sub_position sp = 3)"
proof -
  define v where "v = \<lparr>current_mahadasha =
            \<lparr>mahadasha = Rahu, dasha_start = 0, dasha_end = 27086926851 / 13333333,
              dasha_yrs = 74159964 / 13333333\<rparr>,
          current_antardasha =
            Some \<lparr>planet = Rahu, antar_start = 0, antar_end = 81260780553 / 266666660,
                   antar_years = 55619973 / 66666665\<rparr>,
          next_antardashas =
            [\<lparr>planet = Jupiter, antar_start = 81260780553 / 266666660,
               antar_end = 153492585489 / 266666660, antar_years = 49439976 / 66666665\<rparr>,
             \<lparr>planet = Saturn, antar_start = 153492585489 / 266666660,
               antar_end = 478535707701 / 533333320, antar_years = 117419943 / 133333330\<rparr>,
             \<lparr>planet = Mercury, antar_start = 478535707701 / 533333320,
               antar_end = 63202829319 / 53333332, antar_years = 105059949 / 133333330\<rparr>],
          all_dashas =
            [\<lparr>mahadasha = Rahu, dasha_start = 0, dasha_end = 27086926851 / 13333333,
               dasha_yrs = 74159964 / 13333333\<rparr>,
             \<lparr>mahadasha = Jupiter, dasha_start = 27086926851 / 13333333,
               dasha_end = 105006924903 / 13333333, dasha_yrs = 16\<rparr>]\<rparr>"
  define r where "r = \<lparr>major_period = Venus, years_in_period = 1218 / 487,
        years_remaining = 2678 / 487,
        sub_period = Some \<lparr>sub_ruler = Mercury, sub_years = 8 / 7, sub_position = 3\<rparr>,
        period_years = 8, fird_sequence = firdaria_sequence True\<rparr>"
  have v: "calculate_vimshottari_dasha example_clock example_chart (Some 100) = Inr v"
    unfolding v_def by (rule example_vimshottari)
  have r: "calculate_firdaria example_clock example_chart (Some 4566) = Inr (Some r)"
    unfolding r_def by (rule example_firdaria)
  have mem: "current_mahadasha v \<in> set (all_dashas v)"
    by (simp add: v_def)
  from sibling_periods [of example_clock example_chart "Some 100" v "current_mahadasha v"
      "Some 4566" r] v r mem
  have a: "\<exists>as. antardashas_of (current_mahadasha v) = Inr as \<and> length as = 9
            \<and> antar_end (as ! 8) = dasha_end (current_mahadasha v)
            \<and> sum_list (map antar_years as) = dasha_yrs (current_mahadasha v)"
    and b: "\<exists>sp. sub_period r = Some sp \<and> 7 * sub_years sp = 8 \<and> sub_position sp = 3"
    by (auto simp: r_def)
  from v mem a r b show ?thesis by blast
qed

section \<open>Composite timing analysis\<close>

lemma eclipse_proximity_count:
  "eclipse_proximity es cur score =
     score + 10 * int (length (filter (\<lambda>e. \<bar>\<lfloor>eclipse_date e - cur\<rfloor>\<bar> < 30) es))"
  unfolding eclipse_proximity_def
  by (induction es arbitrary: score) simp_all

lemma composite_score_formula:
  "composite_score ts dasha fird es cur =
     3 * int (length (filter (\<lambda>t. transit_aspect t = Square \<or> transit_aspect t = Opposition) ts))
     + (if dasha \<in> {Mars, Saturn, Rahu, Ketu} then 5 else 0)
     + (if fird \<in> {Some Mars, Some Saturn, Some South_node} then 4 else 0)
     + 10 * int (length (filter (\<lambda>e. \<bar>\<lfloor>eclipse_date e - cur\<rfloor>\<bar> < 30) es))"
  by (simp add: composite_score_def eclipse_proximity_count Let_def)




lemma example_transits:
  "length (calculate_transits example_ephemeris example_chart 100) = 10"
  "filter (\<lambda>t. transit_aspect t = Square \<or> transit_aspect t = Opposition)
     (calculate_transits example_ephemeris example_chart 100) = []"
  by (simp_all add: calculate_transits_def example_ephemeris_def example_chart_def
      planet_ids_def natal_names_def aspect_orbs_def Let_def)

lemma example_eclipses:
  "map eclipse_date (calculate_eclipse_sensitivity example_ephemeris c example_chart)
     = [now c, now c + 173, now c + 346, now c + 519, now c + 692]"
  by (simp add: calculate_eclipse_sensitivity_def example_ephemeris_def example_chart_def
      Let_def)

lemma near_eclipses_map:
  "length (filter (\<lambda>e. \<bar>\<lfloor>eclipse_date e - cur\<rfloor>\<bar> < 30) es)
     = length (filter (\<lambda>t. \<bar>\<lfloor>t - cur\<rfloor>\<bar> < 30) (map eclipse_date es))"
  by (induction es) simp_all

lemma example_near_eclipses:
  "length (filter (\<lambda>e. \<bar>\<lfloor>eclipse_date e - 100\<rfloor>\<bar> < 30)
     (calculate_eclipse_sensitivity example_ephemeris example_clock example_chart)) = 0"
  "length (filter (\<lambda>e. \<bar>\<lfloor>eclipse_date e - 100\<rfloor>\<bar> < 30)
     (calculate_eclipse_sensitivity example_ephemeris \<lparr>now = 100, now_month = 3\<rparr>
        example_chart)) = 1"
  unfolding near_eclipses_map example_eclipses by (simp_all add: example_clock_def)

lemma example_profections:
  "calculate_annual_profections example_clock example_chart None =
     Inr \<lparr>year_age = 32, profected_house = 9, profected_sign = Aquarius,
          time_lord = Saturn, monthly_profection = 7\<rparr>"
  "calculate_annual_profections \<lparr>now = 100, now_month = 3\<rparr> example_chart None =
     Inr \<lparr>year_age = 0, profected_house = 1, profected_sign = Gemini,
          time_lord = Mercury, monthly_profection = 3\<rparr>"
  by (simp_all add: calculate_annual_profections_def example_clock_def example_chart_def
      get_zodiac_sign_def py_nth_def py_int_def signs_def Let_def)

lemma example_firdaria_sun:
  "calculate_firdaria c example_chart (Some 100) =
     Inr (Some \<lparr>major_period = Sun, years_in_period = 400 / 1461,
                years_remaining = 14210 / 1461,
                sub_period = Some \<lparr>sub_ruler = Sun, sub_years = 10 / 7, sub_position = 1\<rparr>,
                period_years = 10, fird_sequence = firdaria_sequence True\<rparr>)"
  by (simp add: calculate_firdaria_def firdaria_is_day_birth_def example_chart_def
      firdaria_sequence_def calculate_firdaria_subperiod_def subperiod_planets_def
      firdaria_planets_def py_int_def py_nth_def Let_def)

lemma example_date_factors:
  "date_factors example_ephemeris example_clock example_chart 100 =
     Inr \<lparr>factor_date = 100, factor_transits = 10,
          profection_activated =
            \<lparr>year_age = 32, profected_house = 9, profected_sign = Aquarius,
              time_lord = Saturn, monthly_profection = 7\<rparr>,
          factor_progressions = 0, factor_dasha = Rahu,
          factor_firdaria = Some Sun, intensity_score = 5\<rparr>"
  "date_factors example_ephemeris \<lparr>now = 100, now_month = 3\<rparr> example_chart 100 =
     Inr \<lparr>factor_date = 100, factor_transits = 10,
          profection_activated =
            \<lparr>year_age = 0, profected_house = 1, profected_sign = Gemini,
              time_lord = Mercury, monthly_profection = 3\<rparr>,
          factor_progressions = 0, factor_dasha = Rahu,
          factor_firdaria = Some Sun, intensity_score = 15\<rparr>"
  using example_near_eclipses
  by (simp_all add: date_factors_def example_profections example_vimshottari
      example_firdaria_sun example_transits composite_score_formula Let_def)
    (simp_all add: example_ephemeris_def)

lemma example_composite:
  "composite_timing_analysis example_ephemeris example_clock example_chart 100 100 =
     Inr \<lparr>peak_intensity_dates =
           [\<lparr>factor_date = 100, factor_transits = 10,
             profection_activated =
               \<lparr>year_age = 32, profected_house = 9, profected_sign = Aquarius,
                 time_lord = Saturn, monthly_profection = 7\<rparr>,
             factor_progressions = 0, factor_dasha = Rahu,
             factor_firdaria = Some Sun, intensity_score = 5\<rparr>],
          full_analysis =
           [\<lparr>factor_date = 100, factor_transits = 10,
             profection_activated =
               \<lparr>year_age = 32, profected_house = 9, profected_sign = Aquarius,
                 time_lord = Saturn, monthly_profection = 7\<rparr>,
             factor_progressions = 0, factor_dasha = Rahu,
             factor_firdaria = Some Sun, intensity_score = 5\<rparr>]\<rparr>"
  "composite_timing_analysis example_ephemeris \<lparr>now = 100, now_month = 3\<rparr> example_chart
       100 100 =
     Inr \<lparr>peak_intensity_dates =
           [\<lparr>factor_date = 100, factor_transits = 10,
             profection_activated =
               \<lparr>year_age = 0, profected_house = 1, profected_sign = Gemini,
                 time_lord = Mercury, monthly_profection = 3\<rparr>,
             factor_progressions = 0, factor_dasha = Rahu,
             factor_firdaria = Some Sun, intensity_score = 15\<rparr>],
          full_analysis =
           [\<lparr>factor_date = 100, factor_transits = 10,
             profection_activated =
               \<lparr>year_age = 0, profected_house = 1, profected_sign = Gemini,
                 time_lord = Mercury, monthly_profection = 3\<rparr>,
             factor_progressions = 0, factor_dasha = Rahu,
             factor_firdaria = Some Sun, intensity_score = 15\<rparr>]\<rparr>"
  by (simp_all add: composite_timing_analysis_def upto.simps example_date_factors Let_def)

subsection \<open>The intensity score\<close>



subsection \<open>Dependence on the clock\<close>

text \<open>
  Claim C9, as amended. Resolving Vimshottari, Firdaria or Zodiacal Releasing periods for
  an explicit date is deterministic in the natal context and the date: the wall-clock time
  has no influence. The annual profections and the composite analysis read the wall clock
  (\<^verbatim>\<open>datetime.now()\<close>: the profected year and month, and the dates of the eclipse checks);
  they are deterministic in their explicit inputs together with that clock reading.
\<close>

theorem resolution_ignores_clock:
  "calculate_vimshottari_dasha c n (Some q) = calculate_vimshottari_dasha c' n (Some q)
   \<and> calculate_firdaria c n (Some q) = calculate_firdaria c' n (Some q)
   \<and> calculate_zodiacal_releasing c n lot (Some q)
       = calculate_zodiacal_releasing c' n lot (Some q)
   \<and> (now c = now c' \<and> now_month c = now_month c' \<longrightarrow>
        calculate_annual_profections c n age = calculate_annual_profections c' n age
        \<and> composite_timing_analysis eph c n s e = composite_timing_analysis eph c' n s e)"
proof -
  have same: "c = c'" if "now c = now c' \<and> now_month c = now_month c'"
    using that by simp
  have explicit: "calculate_vimshottari_dasha c n (Some q) = calculate_vimshottari_dasha c' n (Some q)"
    "calculate_firdaria c n (Some q) = calculate_firdaria c' n (Some q)"
    "calculate_zodiacal_releasing c n lot (Some q)
       = calculate_zodiacal_releasing c' n lot (Some q)"
    by (simp_all add: calculate_vimshottari_dasha_def calculate_firdaria_def
        calculate_zodiacal_releasing_def Let_def split: sum.splits)
  from explicit same show ?thesis by blast
qed

theorem resolution_ignores_clock_witness:
  "now example_clock = now \<lparr>now = 12000, now_month = 11\<rparr>
   \<and> now_month example_clock = now_month \<lparr>now = 12000, now_month = 11\<rparr>
   \<and> composite_timing_analysis example_ephemeris example_clock example_chart 100 100
       = composite_timing_analysis example_ephemeris \<lparr>now = 12000, now_month = 11\<rparr>
           example_chart 100 100
   \<and> calculate_firdaria example_clock example_chart (Some 100)
       = calculate_firdaria \<lparr>now = 100, now_month = 3\<rparr> example_chart (Some 100)"
  using resolution_ignores_clock [of example_clock example_chart 100
      "\<lparr>now = 12000, now_month = 11\<rparr>" "''spirit''" None example_ephemeris 100 100]
    resolution_ignores_clock [of example_clock example_chart 100
      "\<lparr>now = 100, now_month = 3\<rparr>" "''spirit''" None example_ephemeris 100 100]
  by (simp add: example_clock_def)

text \<open>
  Claim C9 as stated fails for the composite analysis: with the same natal context, the
  same ephemeris and the same date range, a run when the clock reads day 12000 in month 11
  scores day 100 at 5, and a run when the clock reads day 100 in month 3 scores it at 15
  (an eclipse check falls on the day) and reports another profection.
\<close>

theorem composite_clock_counterexample:
  "composite_timing_analysis example_ephemeris example_clock example_chart 100 100
     \<noteq> composite_timing_analysis example_ephemeris \<lparr>now = 100, now_month = 3\<rparr>
         example_chart 100 100
   \<and> (case composite_timing_analysis example_ephemeris example_clock example_chart 100 100 of
        Inr r \<Rightarrow> map intensity_score (full_analysis r) = [5] | Inl x \<Rightarrow> False)
   \<and> (case composite_timing_analysis example_ephemeris \<lparr>now = 100, now_month = 3\<rparr>
              example_chart 100 100 of
        Inr r \<Rightarrow> map intensity_score (full_analysis r) = [15] | Inl x \<Rightarrow> False)"
  by (simp add: example_composite)

end
